theory Spec2Isabelle
  imports Main
begin

section \<open>Values and containers of the runtime\<close>

text \<open>
  A parsed JSON value. Numbers are modelled by the integers; the key--value pairs of an
  object are kept in the order of the text. A property that is absent (\<open>undefined\<close> in
  the source) is \<open>None\<close> wherever a property is read.
\<close>

datatype json =
    JNull
  | JBool bool
  | JNum int
  | JStr string
  | JArr "json list"
  | JObj "(string \<times> json) list"

text \<open>Truthiness of a value that is present, as \<open>!x\<close> and \<open>a && b\<close> test it.\<close>

fun truthy :: "json \<Rightarrow> bool" where
  "truthy JNull = False"
| "truthy (JBool b) = b"
| "truthy (JNum n) = (n \<noteq> 0)"
| "truthy (JStr s) = (s \<noteq> [])"
| "truthy (JArr xs) = True"
| "truthy (JObj kvs) = True"

text \<open>Truthiness of a possibly absent value: \<open>undefined\<close> is falsy.\<close>

fun truthy_opt :: "json option \<Rightarrow> bool" where
  "truthy_opt None = False"
| "truthy_opt (Some v) = truthy v"

text \<open>
  \<open>v.k\<close> for one of the property names the gateway reads (\<open>jsonrpc\<close>, \<open>id\<close>,
  \<open>method\<close>, \<open>params\<close>, \<open>name\<close>, \<open>uri\<close>, \<open>result\<close>, \<open>tools\<close>, \<open>resources\<close>,
  \<open>prompts\<close>): only an object has them. Reading a property of \<open>null\<close> throws; the
  callers below test for \<open>null\<close> where the source can reach it.
\<close>

fun get_prop :: "json \<Rightarrow> string \<Rightarrow> json option" where
  "get_prop (JObj kvs) k = map_of kvs k"
| "get_prop _ k = None"

text \<open>\<open>v?.k\<close> on a possibly absent value: \<open>undefined\<close> and \<open>null\<close> give \<open>undefined\<close>.\<close>

fun get_prop_opt :: "json option \<Rightarrow> string \<Rightarrow> json option" where
  "get_prop_opt None k = None"
| "get_prop_opt (Some v) k = get_prop v k"

text \<open>
  A JavaScript \<open>Map\<close>: an association list in insertion order with one entry per key.
  \<open>set\<close> on a key that is present replaces the value in place; \<open>delete\<close> removes it.
\<close>

definition Map_get :: "('k \<times> 'v) list \<Rightarrow> 'k \<Rightarrow> 'v option" where
  "Map_get m k = map_of m k"

fun Map_set :: "'k \<Rightarrow> 'v \<Rightarrow> ('k \<times> 'v) list \<Rightarrow> ('k \<times> 'v) list" where
  "Map_set k v [] = [(k, v)]"
| "Map_set k v ((k', v') # m) =
     (if k' = k then (k, v) # m else (k', v') # Map_set k v m)"

definition Map_delete :: "'k \<Rightarrow> ('k \<times> 'v) list \<Rightarrow> ('k \<times> 'v) list" where
  "Map_delete k m = filter (\<lambda>kv. fst kv \<noteq> k) m"

definition Map_size :: "('k \<times> 'v) list \<Rightarrow> int" where
  "Map_size m = int (length m)"

text \<open>
  The outcome of one \<open>fetch\<close>: the call throws (network error, abort by the timeout
  signal) with a message, or a response arrives with its status and its body; the body
  is \<open>Inl msg\<close> when \<open>response.json()\<close> throws on it with that message, and
  \<open>Inr v\<close> when it parses to \<open>v\<close>.
\<close>

datatype fetch_result =
    FetchThrew string
  | FetchResponse nat "string + json"

text \<open>
  The network. The gateway's outbound calls are all \<open>fetch\<close> of a URL; the answer
  may depend on every call made so far, so the oracle takes the list of URLs already
  requested and the URL requested now. \<open>fetch\<close> returns the answer and the extended
  list. The request body is not an input of the oracle, whose answer is already free to
  differ from call to call.
\<close>

type_synonym network = "string list \<Rightarrow> string \<Rightarrow> fetch_result"

definition fetch :: "network \<Rightarrow> string list \<Rightarrow> string \<Rightarrow> fetch_result \<times> string list" where
  "fetch net requested u = (net requested u, requested @ [u])"

text \<open>\<open>response.ok\<close>: the status is in the range 200--299.\<close>

definition response_ok :: "nat \<Rightarrow> bool" where
  "response_ok status = (200 \<le> status \<and> status \<le> 299)"

section \<open>Server manager\<close>

record ServerConfig =
  config_url :: string
  config_capabilities :: "string list"
  healthCheckInterval :: int

record ServerInstance =
  instance_id :: string
  serverId :: string
  url :: string
  lastHealthCheck :: int
  isHealthy :: bool
  activeConnections :: int
  capabilities :: "string list"

record MCPServerManager =
  servers :: "(string \<times> ServerInstance) list"

text \<open>
  The constructor registers every configured server that has a URL, unhealthy and with
  no connection. \<open>now\<close> is the clock reading of \<open>new Date()\<close>.
\<close>

definition register_server ::
  "int \<Rightarrow> string \<times> ServerConfig \<Rightarrow> (string \<times> ServerInstance) list
     \<Rightarrow> (string \<times> ServerInstance) list" where
  "register_server now entry m =
     (case entry of (sid, config) \<Rightarrow>
        if config_url config \<noteq> [] then
          Map_set sid
            \<lparr>instance_id = sid, serverId = sid, url = config_url config,
             lastHealthCheck = now, isHealthy = False, activeConnections = 0,
             capabilities = config_capabilities config\<rparr> m
        else m)"

definition new_MCPServerManager ::
  "(string \<times> ServerConfig) list \<Rightarrow> int \<Rightarrow> MCPServerManager" where
  "new_MCPServerManager serverConfigs now =
     \<lparr>servers = fold (register_server now) serverConfigs []\<rparr>"

text \<open>
  \<open>getServerInstance\<close> returns the stored object itself. The model returns its value
  after the increment; the object is identified by its key in \<open>servers\<close>, which the
  constructor also stores in the field \<open>serverId\<close>.
\<close>

definition getServerInstance ::
  "string \<Rightarrow> MCPServerManager \<Rightarrow> ServerInstance option \<times> MCPServerManager" where
  "getServerInstance sid sm =
     (case Map_get (servers sm) sid of
        None \<Rightarrow> (None, sm)
      | Some server \<Rightarrow>
          if \<not> isHealthy server then (None, sm)
          else
            let server' = server\<lparr>activeConnections := activeConnections server + 1\<rparr>
            in (Some server', sm\<lparr>servers := Map_set sid server' (servers sm)\<rparr>))"

text \<open>
  \<open>releaseServerInstance(instance)\<close> writes to the object it is given, which is the
  stored one: the model reads and writes the entry that \<open>instance\<close> refers to.
\<close>

definition releaseServerInstance ::
  "ServerInstance \<Rightarrow> MCPServerManager \<Rightarrow> MCPServerManager" where
  "releaseServerInstance instance sm =
     (case Map_get (servers sm) (serverId instance) of
        None \<Rightarrow> sm
      | Some server \<Rightarrow>
          if activeConnections server > 0 then
            sm\<lparr>servers := Map_set (serverId instance)
                  (server\<lparr>activeConnections := activeConnections server - 1\<rparr>) (servers sm)\<rparr>
          else sm)"

text \<open>
  \<open>performHealthCheck\<close>, at the moment the probe completes with the given outcome.
  Before the \<open>await\<close> the source only reads the stored object and its URL, neither of
  which ever changes, so the completion is one atomic step.
\<close>

definition performHealthCheck ::
  "string \<Rightarrow> fetch_result \<Rightarrow> int \<Rightarrow> MCPServerManager \<Rightarrow> MCPServerManager" where
  "performHealthCheck sid outcome now sm =
     (case Map_get (servers sm) sid of
        None \<Rightarrow> sm
      | Some server \<Rightarrow>
          if url server = [] then sm
          else
            let server' =
              (case outcome of
                 FetchResponse status body \<Rightarrow>
                   if response_ok status then server\<lparr>isHealthy := True\<rparr>
                   else server\<lparr>isHealthy := False\<rparr>
               | FetchThrew msg \<Rightarrow> server\<lparr>isHealthy := False\<rparr>)
            in sm\<lparr>servers := Map_set sid (server'\<lparr>lastHealthCheck := now\<rparr>) (servers sm)\<rparr>)"

text \<open>
  What can happen to the server manager after construction: a probe of a server
  completes, a caller asks for an instance of a server, a caller releases the instance
  of a server.
\<close>

datatype sm_event =
    HealthCheck string fetch_result int
  | Checkout string
  | Release string

fun sm_step :: "sm_event \<Rightarrow> MCPServerManager \<Rightarrow> MCPServerManager" where
  "sm_step (HealthCheck sid outcome now) sm = performHealthCheck sid outcome now sm"
| "sm_step (Checkout sid) sm = snd (getServerInstance sid sm)"
| "sm_step (Release sid) sm =
     (case Map_get (servers sm) sid of
        None \<Rightarrow> sm
      | Some instance \<Rightarrow> releaseServerInstance instance sm)"

definition sm_run :: "sm_event list \<Rightarrow> MCPServerManager \<Rightarrow> MCPServerManager" where
  "sm_run evs sm = fold sm_step evs sm"

text \<open>The outcome of the most recent completed probe of a server, if there was one.\<close>

fun last_probe :: "string \<Rightarrow> sm_event list \<Rightarrow> fetch_result option" where
  "last_probe sid [] = None"
| "last_probe sid (e # es) =
     (case last_probe sid es of
        Some r \<Rightarrow> Some r
      | None \<Rightarrow>
          (case e of
             HealthCheck s r now \<Rightarrow> if s = sid then Some r else None
           | _ \<Rightarrow> None))"

definition probe_2xx :: "fetch_result \<Rightarrow> bool" where
  "probe_2xx r = (case r of FetchResponse status body \<Rightarrow> response_ok status | FetchThrew msg \<Rightarrow> False)"

text \<open>
  The number of checkouts of a server that returned an instance, and the number of
  releases of its instance, along a run.
\<close>

fun checkouts :: "string \<Rightarrow> sm_event list \<Rightarrow> MCPServerManager \<Rightarrow> int" where
  "checkouts sid [] sm = 0"
| "checkouts sid (e # es) sm =
     (if e = Checkout sid \<and> fst (getServerInstance sid sm) \<noteq> None then 1 else 0)
       + checkouts sid es (sm_step e sm)"

fun releases :: "string \<Rightarrow> sm_event list \<Rightarrow> int" where
  "releases sid [] = 0"
| "releases sid (e # es) = (if e = Release sid then 1 else 0) + releases sid es"

definition connections_of :: "string \<Rightarrow> MCPServerManager \<Rightarrow> int" where
  "connections_of sid sm =
     (case Map_get (servers sm) sid of None \<Rightarrow> 0 | Some server \<Rightarrow> activeConnections server)"

section \<open>Session manager\<close>

datatype transport = Http | Websocket

text \<open>A WebSocket handle is a number; \<open>connection\<close> is absent until one is attached.\<close>

record Session =
  session_id :: string
  userId :: string
  createdAt :: int
  lastActivity :: int
  serverConnections :: "(string \<times> ServerInstance) list"
  transport :: transport
  connection :: "nat option"

record GatewayConfig =
  sessionTimeout :: int
  maxConcurrentSessions :: int
  mcpServers :: "(string \<times> ServerConfig) list"

record MCPSessionManager =
  sessions :: "(string \<times> Session) list"
  config :: GatewayConfig

definition new_MCPSessionManager :: "GatewayConfig \<Rightarrow> MCPSessionManager" where
  "new_MCPSessionManager cfg = \<lparr>sessions = [], config = cfg\<rparr>"

text \<open>
  \<open>createSession\<close>; \<open>uuid\<close> is the value \<open>uuidv4()\<close> returns and \<open>now\<close> the clock.
  The defaults of the source's parameters are written out by the callers.
\<close>

definition createSession ::
  "string \<Rightarrow> string \<Rightarrow> transport \<Rightarrow> int \<Rightarrow> MCPSessionManager \<Rightarrow> Session \<times> MCPSessionManager" where
  "createSession uuid user tr now ssm =
     (let session = \<lparr>session_id = uuid, userId = user, createdAt = now, lastActivity = now,
                      serverConnections = [], transport = tr, connection = None\<rparr>
      in (session, ssm\<lparr>sessions := Map_set uuid session (sessions ssm)\<rparr>))"

definition getSession ::
  "string \<Rightarrow> int \<Rightarrow> MCPSessionManager \<Rightarrow> Session option \<times> MCPSessionManager" where
  "getSession sid now ssm =
     (case Map_get (sessions ssm) sid of
        Some session \<Rightarrow>
          let session' = session\<lparr>lastActivity := now\<rparr>
          in (Some session', ssm\<lparr>sessions := Map_set sid session' (sessions ssm)\<rparr>)
      | None \<Rightarrow> (None, ssm))"

definition attachWebSocket ::
  "string \<Rightarrow> nat \<Rightarrow> MCPSessionManager \<Rightarrow> bool \<times> MCPSessionManager" where
  "attachWebSocket sid ws ssm =
     (case Map_get (sessions ssm) sid of
        Some session \<Rightarrow>
          (True, ssm\<lparr>sessions :=
             Map_set sid (session\<lparr>connection := Some ws, transport := Websocket\<rparr>) (sessions ssm)\<rparr>)
      | None \<Rightarrow> (False, ssm))"

text \<open>
  \<open>validateToken\<close> verifies a signed token; the verification is a parameter
  \<open>verify\<close>, which gives the session id the token carries, or \<open>None\<close> when
  \<open>jwt.verify\<close> throws.
\<close>

definition validateToken :: "(string \<Rightarrow> string option) \<Rightarrow> string \<Rightarrow> string option" where
  "validateToken verify token = verify token"

definition getSessionFromAuthHeader ::
  "(string \<Rightarrow> string option) \<Rightarrow> string \<Rightarrow> int \<Rightarrow> MCPSessionManager
     \<Rightarrow> Session option \<times> MCPSessionManager" where
  "getSessionFromAuthHeader verify authHeader now ssm =
     (if take 7 authHeader \<noteq> ''Bearer '' then (None, ssm)
      else
        (case validateToken verify (drop 7 authHeader) of
           Some sid \<Rightarrow> if sid \<noteq> [] then getSession sid now ssm else (None, ssm)
         | None \<Rightarrow> (None, ssm)))"

text \<open>
  \<open>removeSession\<close>; closing the bound socket acts on the socket only and is not part
  of the state modelled here.
\<close>

definition removeSession :: "string \<Rightarrow> MCPSessionManager \<Rightarrow> MCPSessionManager" where
  "removeSession sid ssm =
     (case Map_get (sessions ssm) sid of
        Some session \<Rightarrow> ssm\<lparr>sessions := Map_delete sid (sessions ssm)\<rparr>
      | None \<Rightarrow> ssm)"

definition getActiveSessionCount :: "MCPSessionManager \<Rightarrow> int" where
  "getActiveSessionCount ssm = Map_size (sessions ssm)"

definition canCreateNewSession :: "MCPSessionManager \<Rightarrow> bool" where
  "canCreateNewSession ssm = (Map_size (sessions ssm) < maxConcurrentSessions (config ssm))"

text \<open>The first loop of \<open>cleanupExpiredSessions\<close>: the ids of the expired sessions.\<close>

fun expiredSessions :: "int \<Rightarrow> int \<Rightarrow> (string \<times> Session) list \<Rightarrow> string list" where
  "expiredSessions now timeout [] = []"
| "expiredSessions now timeout ((sid, session) # rest) =
     (let timeSinceLastActivity = now - lastActivity session
      in if timeSinceLastActivity > timeout
         then sid # expiredSessions now timeout rest
         else expiredSessions now timeout rest)"

definition cleanupExpiredSessions :: "int \<Rightarrow> MCPSessionManager \<Rightarrow> MCPSessionManager" where
  "cleanupExpiredSessions now ssm =
     fold removeSession (expiredSessions now (sessionTimeout (config ssm)) (sessions ssm)) ssm"

section \<open>Protocol adapter\<close>

text \<open>
  A request is the parsed JSON value itself: the source casts the body to
  \<open>MCPRequest\<close> without converting it, so \<open>request.method\<close>, \<open>request.params\<close> and
  \<open>request.id\<close> are whatever the object holds. A value that passes the validation of
  \<open>handleHttpToMCP\<close> or \<open>handleWebSocketMessage\<close> is an object.
\<close>

type_synonym MCPRequest = json

record rpc_error =
  code :: int
  message :: string
  data :: "json option"

record MCPResponse =
  jsonrpc :: string
  response_id :: "json option"
  result :: "json option"
  error :: "rpc_error option"

text \<open>
  \<open>handleHttpToMCP\<close>: \<open>Inl\<close> is the message of the \<open>Error\<close> thrown. The body is
  \<open>None\<close> when the request has none.
\<close>

definition handleHttpToMCP :: "json option \<Rightarrow> string + MCPRequest" where
  "handleHttpToMCP requestBody =
     (case requestBody of
        None \<Rightarrow> Inl ''Invalid JSON-RPC request''
      | Some body \<Rightarrow>
          if \<not> truthy body \<or> get_prop body ''jsonrpc'' \<noteq> Some (JStr ''2.0'')
             \<or> \<not> truthy_opt (get_prop body ''method'')
          then Inl ''Invalid JSON-RPC request''
          else Inr body)"

text \<open>
  \<open>handleWebSocketMessage\<close>. \<open>parsed\<close> is the outcome of \<open>JSON.parse(message)\<close>,
  \<open>None\<close> when it throws. The result is the request, or \<open>null\<close>, together with the
  frames sent on the socket.
\<close>

definition handleWebSocketMessage :: "json option \<Rightarrow> MCPRequest option \<times> MCPResponse list" where
  "handleWebSocketMessage parsed =
     (case parsed of
        None \<Rightarrow>
          (None, [\<lparr>jsonrpc = ''2.0'', response_id = None, result = None,
                   error = Some \<lparr>code = - 32700, message = ''Parse error'', data = None\<rparr>\<rparr>])
      | Some parsedMessage \<Rightarrow>
          if \<not> truthy parsedMessage \<or> get_prop parsedMessage ''jsonrpc'' \<noteq> Some (JStr ''2.0'')
             \<or> \<not> truthy_opt (get_prop parsedMessage ''method'')
          then
            (None, [\<lparr>jsonrpc = ''2.0'', response_id = None, result = None,
                     error = Some \<lparr>code = - 32700, message = ''Parse error'', data = None\<rparr>\<rparr>])
          else (Some parsedMessage, []))"

text \<open>
  \<open>capabilities.includes(capabilityToResolve)\<close> on a list of strings: only a string
  can be found in it.
\<close>

fun array_includes :: "string list \<Rightarrow> json option \<Rightarrow> bool" where
  "array_includes caps (Some (JStr s)) = (s \<in> set caps)"
| "array_includes caps _ = False"

text \<open>The three assignments at the head of \<open>resolveCapability\<close>.\<close>

definition capabilityToResolve :: "MCPRequest \<Rightarrow> json option" where
  "capabilityToResolve request =
     (let method = get_prop request ''method'';
          params = get_prop request ''params'';
          c0 = method;
          c1 = (if method = Some (JStr ''tools/call'') \<and> truthy_opt (get_prop_opt params ''name'')
                then get_prop_opt params ''name'' else c0);
          c2 = (if method = Some (JStr ''resources/read'') \<and> truthy_opt (get_prop_opt params ''uri'')
                then get_prop_opt params ''uri'' else c1);
          c3 = (if method = Some (JStr ''prompts/get'') \<and> truthy_opt (get_prop_opt params ''name'')
                then get_prop_opt params ''name'' else c2)
      in c3)"

text \<open>The loop of \<open>resolveCapability\<close> over the entries of the capability map.\<close>

fun scan_capabilityMap :: "(string \<times> string list) list \<Rightarrow> json option \<Rightarrow> string option" where
  "scan_capabilityMap [] c = None"
| "scan_capabilityMap ((sid, caps) # rest) c =
     (if array_includes caps c then Some sid else scan_capabilityMap rest c)"

definition resolveCapability :: "MCPRequest \<Rightarrow> (string \<times> string list) list \<Rightarrow> string option" where
  "resolveCapability request cmap = scan_capabilityMap cmap (capabilityToResolve request)"

section \<open>Gateway\<close>

text \<open>
  \<open>String(v)\<close>, as a template literal renders a value. Integers are written in
  decimal, which is what the source prints for magnitudes below \<open>10\<^sup>2\<^sup>1\<close>.
\<close>

fun dec_digits :: "nat \<Rightarrow> string" where
  "dec_digits n =
     (if n < 10 then [''0123456789'' ! n]
      else dec_digits (n div 10) @ [''0123456789'' ! (n mod 10)])"

declare dec_digits.simps [simp del]

fun join_comma :: "string list \<Rightarrow> string" where
  "join_comma [] = []"
| "join_comma [x] = x"
| "join_comma (x # y # rest) = x @ '','' @ join_comma (y # rest)"

fun js_String :: "json \<Rightarrow> string" where
  "js_String JNull = ''null''"
| "js_String (JBool b) = (if b then ''true'' else ''false'')"
| "js_String (JNum n) = (if n < 0 then ''-'' @ dec_digits (nat (- n)) else dec_digits (nat n))"
| "js_String (JStr s) = s"
| "js_String (JArr xs) = join_comma (map (\<lambda>x. if x = JNull then [] else js_String x) xs)"
| "js_String (JObj kvs) = ''[object Object]''"

fun template :: "json option \<Rightarrow> string" where
  "template None = ''undefined''"
| "template (Some v) = js_String v"

record MCPGateway =
  gw_config :: GatewayConfig
  serverManager :: MCPServerManager
  sessionManager :: MCPSessionManager
  capabilityMap :: "(string \<times> string list) list"

definition buildCapabilityMap :: "(string \<times> ServerConfig) list \<Rightarrow> (string \<times> string list) list" where
  "buildCapabilityMap entries =
     fold (\<lambda>entry m. case entry of (sid, c) \<Rightarrow> Map_set sid (config_capabilities c) m) entries []"

definition new_MCPGateway :: "GatewayConfig \<Rightarrow> int \<Rightarrow> MCPGateway" where
  "new_MCPGateway cfg now =
     \<lparr>gw_config = cfg,
      serverManager = new_MCPServerManager (mcpServers cfg) now,
      sessionManager = new_MCPSessionManager cfg,
      capabilityMap = buildCapabilityMap (mcpServers cfg)\<rparr>"

definition isProtocolMethod :: "json option \<Rightarrow> bool" where
  "isProtocolMethod method =
     array_includes [''initialize'', ''notifications/initialized'', ''tools/list'',
       ''resources/list'', ''prompts/list'', ''ping''] method"

definition getCapabilityToResolve :: "MCPRequest \<Rightarrow> json option" where
  "getCapabilityToResolve request =
     (let method = get_prop request ''method'';
          params = get_prop request ''params''
      in if method = Some (JStr ''tools/call'') \<and> truthy_opt (get_prop_opt params ''name'')
         then get_prop_opt params ''name''
         else if method = Some (JStr ''resources/read'') \<and> truthy_opt (get_prop_opt params ''uri'')
         then get_prop_opt params ''uri''
         else if method = Some (JStr ''prompts/get'') \<and> truthy_opt (get_prop_opt params ''name'')
         then get_prop_opt params ''name''
         else method)"

text \<open>
  \<open>push(...v)\<close> spreads \<open>v\<close>: an array gives its elements, a string its characters,
  and any other truthy value is not iterable, which throws (\<open>None\<close>).
\<close>

fun spread :: "json \<Rightarrow> json list option" where
  "spread (JArr xs) = Some xs"
| "spread (JStr s) = Some (map (\<lambda>c. JStr [c]) s)"
| "spread _ = None"

text \<open>
  The body of the \<open>try\<close> block of \<open>getAvailableTools\<close>, \<open>getAvailableResources\<close> and
  \<open>getAvailablePrompts\<close> once \<open>fetch\<close> has completed; \<open>key\<close> is \<open>tools\<close>,
  \<open>resources\<close> or \<open>prompts\<close>. \<open>Inl\<close> is an exception, which the \<open>catch\<close> of the
  loop logs; \<open>Inr\<close> is the list of items pushed.
\<close>

definition listing_of :: "string \<Rightarrow> fetch_result \<Rightarrow> string + json list" where
  "listing_of key r =
     (case r of
        FetchThrew msg \<Rightarrow> Inl msg
      | FetchResponse status body \<Rightarrow>
          if response_ok status then
            (case body of
               Inl msg \<Rightarrow> Inl msg
             | Inr res \<Rightarrow>
                 if res = JNull then Inl ''TypeError''
                 else
                   (case get_prop_opt (get_prop res ''result'') key of
                      None \<Rightarrow> Inr []
                    | Some v \<Rightarrow>
                        if truthy v then
                          (case spread v of None \<Rightarrow> Inl ''TypeError'' | Some items \<Rightarrow> Inr items)
                        else Inr []))
          else Inr [])"

text \<open>
  The loop over \<open>Object.entries(this.config.mcpServers)\<close>, the same in the three
  functions: \<open>allItems\<close> is the array being filled.
\<close>

fun fetch_listings ::
  "string \<Rightarrow> network \<Rightarrow> (string \<times> ServerConfig) list \<Rightarrow> json list \<Rightarrow> string list
     \<Rightarrow> json list \<times> string list" where
  "fetch_listings key net [] allItems requested = (allItems, requested)"
| "fetch_listings key net ((sid, conf) # rest) allItems requested =
     (case fetch net requested (config_url conf @ ''/mcp'') of
        (r, requested') \<Rightarrow>
          (case listing_of key r of
             Inl msg \<Rightarrow> fetch_listings key net rest allItems requested'
           | Inr items \<Rightarrow> fetch_listings key net rest (allItems @ items) requested'))"

definition getAvailableTools ::
  "network \<Rightarrow> MCPGateway \<Rightarrow> string list \<Rightarrow> json list \<times> string list" where
  "getAvailableTools net gw requested =
     fetch_listings ''tools'' net (mcpServers (gw_config gw)) [] requested"

definition getAvailableResources ::
  "network \<Rightarrow> MCPGateway \<Rightarrow> string list \<Rightarrow> json list \<times> string list" where
  "getAvailableResources net gw requested =
     fetch_listings ''resources'' net (mcpServers (gw_config gw)) [] requested"

definition getAvailablePrompts ::
  "network \<Rightarrow> MCPGateway \<Rightarrow> string list \<Rightarrow> json list \<times> string list" where
  "getAvailablePrompts net gw requested =
     fetch_listings ''prompts'' net (mcpServers (gw_config gw)) [] requested"

definition success_response :: "MCPRequest \<Rightarrow> json \<Rightarrow> MCPResponse" where
  "success_response request res =
     \<lparr>jsonrpc = ''2.0'', response_id = get_prop request ''id'', result = Some res, error = None\<rparr>"

definition error_response :: "MCPRequest \<Rightarrow> int \<Rightarrow> string \<Rightarrow> string \<Rightarrow> MCPResponse" where
  "error_response request c m d =
     \<lparr>jsonrpc = ''2.0'', response_id = get_prop request ''id'', result = None,
      error = Some \<lparr>code = c, message = m, data = Some (JStr d)\<rparr>\<rparr>"

definition handleProtocolMethod ::
  "network \<Rightarrow> MCPRequest \<Rightarrow> string list \<Rightarrow> MCPGateway \<Rightarrow> MCPResponse \<times> string list" where
  "handleProtocolMethod net request requested gw =
     (let method = get_prop request ''method''
      in if method = Some (JStr ''initialize'') then
           (success_response request
              (JObj [(''protocolVersion'', JStr ''2024-11-05''),
                     (''capabilities'',
                        JObj [(''tools'', JObj []), (''resources'', JObj []), (''prompts'', JObj [])]),
                     (''serverInfo'',
                        JObj [(''name'', JStr ''omni-mcp-gateway''), (''version'', JStr ''1.0.0'')])]),
            requested)
         else if method = Some (JStr ''notifications/initialized'') then
           (success_response request (JObj []), requested)
         else if method = Some (JStr ''tools/list'') then
           (case getAvailableTools net gw requested of
              (tools, requested') \<Rightarrow>
                (success_response request (JObj [(''tools'', JArr tools)]), requested'))
         else if method = Some (JStr ''resources/list'') then
           (case getAvailableResources net gw requested of
              (resources, requested') \<Rightarrow>
                (success_response request (JObj [(''resources'', JArr resources)]), requested'))
         else if method = Some (JStr ''prompts/list'') then
           (case getAvailablePrompts net gw requested of
              (prompts, requested') \<Rightarrow>
                (success_response request (JObj [(''prompts'', JArr prompts)]), requested'))
         else if method = Some (JStr ''ping'') then
           (success_response request (JObj []), requested)
         else
           (error_response request (- 32601) ''Method not found''
              (''Protocol method '' @ template method @ '' not implemented''),
            requested))"

text \<open>
  What \<open>routeAndExecuteRequest\<close> returns: a response the gateway built, or the parsed
  body of the backend's answer, returned as it is.
\<close>

datatype reply = Gateway MCPResponse | Backend json

text \<open>
  The inner \<open>try\<close> of \<open>routeAndExecuteRequest\<close> once \<open>fetch\<close> has completed: \<open>Inl\<close>
  is the message of an exception, which the outer \<open>catch\<close> converts. With a 2xx
  status the source reads \<open>mcpResponse.error\<close>, which throws on \<open>null\<close>.
\<close>

definition relay_of :: "fetch_result \<Rightarrow> string + json" where
  "relay_of r =
     (case r of
        FetchThrew msg \<Rightarrow> Inl msg
      | FetchResponse status body \<Rightarrow>
          (case body of
             Inl msg \<Rightarrow> Inl msg
           | Inr mcpResponse \<Rightarrow>
               if response_ok status \<and> mcpResponse = JNull
               then Inl ''Cannot read properties of null (reading 'error')''
               else Inr mcpResponse))"

text \<open>
  \<open>routeAndExecuteRequest\<close>. The session is used for logging only and is left out.
  The instance is released in the \<open>finally\<close>, whatever the outcome of the call.
\<close>

definition routeAndExecuteRequest ::
  "network \<Rightarrow> MCPRequest \<Rightarrow> string list \<Rightarrow> MCPGateway \<Rightarrow> reply \<times> string list \<times> MCPGateway" where
  "routeAndExecuteRequest net request requested gw =
     (if isProtocolMethod (get_prop request ''method'') then
        (case handleProtocolMethod net request requested gw of
           (response, requested') \<Rightarrow> (Gateway response, requested', gw))
      else
        (case resolveCapability request (capabilityMap gw) of
           None \<Rightarrow>
             (Gateway (error_response request (- 32601) ''Method not found''
                (''No server found for capability: '' @ template (getCapabilityToResolve request))),
              requested, gw)
         | Some sid \<Rightarrow>
             if sid = [] then
               (Gateway (error_response request (- 32601) ''Method not found''
                  (''No server found for capability: '' @ template (getCapabilityToResolve request))),
                requested, gw)
             else
               (case getServerInstance sid (serverManager gw) of
                  (None, sm') \<Rightarrow>
                    (Gateway (error_response request (- 32603) ''Internal error''
                       (''No healthy server instances available for: '' @ sid)),
                     requested, gw\<lparr>serverManager := sm'\<rparr>)
                | (Some serverInstance, sm') \<Rightarrow>
                    (case fetch net requested (url serverInstance @ ''/mcp'') of
                       (r, requested') \<Rightarrow>
                         let gw' = gw\<lparr>serverManager := releaseServerInstance serverInstance sm'\<rparr>
                         in (case relay_of r of
                               Inl msg \<Rightarrow>
                                 (Gateway (error_response request (- 32603) ''Internal error'' msg),
                                  requested', gw')
                             | Inr mcpResponse \<Rightarrow> (Backend mcpResponse, requested', gw'))))))"

record HTTPHeaders =
  authorization :: "string option"
  Authorization :: "string option"

definition getSessionFromHeaders ::
  "(string \<Rightarrow> string option) \<Rightarrow> HTTPHeaders \<Rightarrow> int \<Rightarrow> MCPSessionManager
     \<Rightarrow> Session option \<times> MCPSessionManager" where
  "getSessionFromHeaders verify headers now ssm =
     (let authHeader =
            (case authorization headers of
               Some a \<Rightarrow> if a \<noteq> [] then Some a else Authorization headers
             | None \<Rightarrow> Authorization headers)
      in case authHeader of
           Some a \<Rightarrow> if a \<noteq> [] then getSessionFromAuthHeader verify a now ssm else (None, ssm)
         | None \<Rightarrow> (None, ssm))"

text \<open>
  The object the \<open>catch\<close> of \<open>handleHttpRequest\<close> returns: \<open>success\<close> and the message
  under \<open>error\<close>, the only fields of \<open>GatewayHTTPResponse\<close> it sets.
\<close>

record GatewayHTTPResponse =
  success :: bool
  http_error :: "string option"

datatype http_result = GatewayHTTP GatewayHTTPResponse | MCP reply

text \<open>\<open>handleHttpRequest\<close> from the conversion of the body on, the session being settled.\<close>

definition convert_and_route ::
  "network \<Rightarrow> json option \<Rightarrow> string list \<Rightarrow> MCPGateway \<Rightarrow> http_result \<times> string list \<times> MCPGateway" where
  "convert_and_route net requestBody requested gw =
     (case handleHttpToMCP requestBody of
        Inl msg \<Rightarrow> (GatewayHTTP \<lparr>success = False, http_error = Some msg\<rparr>, requested, gw)
      | Inr mcpRequest \<Rightarrow>
          (case routeAndExecuteRequest net mcpRequest requested gw of
             (mcpResponse, requested', gw') \<Rightarrow> (MCP mcpResponse, requested', gw')))"

definition handleHttpRequest ::
  "(string \<Rightarrow> string option) \<Rightarrow> network \<Rightarrow> json option \<Rightarrow> HTTPHeaders \<Rightarrow> string \<Rightarrow> int
     \<Rightarrow> string list \<Rightarrow> MCPGateway \<Rightarrow> http_result \<times> string list \<times> MCPGateway" where
  "handleHttpRequest verify net requestBody headers uuid now requested gw =
     (case getSessionFromHeaders verify headers now (sessionManager gw) of
        (Some session, ssm) \<Rightarrow>
          convert_and_route net requestBody requested (gw\<lparr>sessionManager := ssm\<rparr>)
      | (None, ssm) \<Rightarrow>
          if \<not> canCreateNewSession ssm then
            (GatewayHTTP \<lparr>success = False, http_error = Some ''Maximum concurrent sessions reached''\<rparr>,
             requested, gw\<lparr>sessionManager := ssm\<rparr>)
          else
            (case createSession uuid ''anonymous'' Http now ssm of
               (session, ssm') \<Rightarrow>
                 convert_and_route net requestBody requested (gw\<lparr>sessionManager := ssm'\<rparr>)))"

text \<open>
  \<open>handleWebSocketConnection\<close> up to the registration of the handlers: the session of
  the connection is created and bound to the socket. The welcome frame is not modelled.
\<close>

definition handleWebSocketConnection ::
  "nat \<Rightarrow> string \<Rightarrow> int \<Rightarrow> MCPGateway \<Rightarrow> Session \<times> MCPGateway" where
  "handleWebSocketConnection ws uuid now gw =
     (case createSession uuid ''websocket-user'' Websocket now (sessionManager gw) of
        (session, ssm) \<Rightarrow>
          (case attachWebSocket (session_id session) ws ssm of
             (attached, ssm') \<Rightarrow> (session, gw\<lparr>sessionManager := ssm'\<rparr>)))"

text \<open>
  The \<open>message\<close> handler of a connection: the frames sent on the socket, in order.
  \<open>routeAndExecuteRequest\<close> returns in every case, so the handler's own \<open>catch\<close> is
  never entered.
\<close>

definition on_message ::
  "network \<Rightarrow> json option \<Rightarrow> string list \<Rightarrow> MCPGateway \<Rightarrow> reply list \<times> string list \<times> MCPGateway" where
  "on_message net parsed requested gw =
     (case handleWebSocketMessage parsed of
        (None, frames) \<Rightarrow> (map Gateway frames, requested, gw)
      | (Some mcpRequest, frames) \<Rightarrow>
          (case routeAndExecuteRequest net mcpRequest requested gw of
             (mcpResponse, requested', gw') \<Rightarrow>
               (map Gateway frames @ [mcpResponse], requested', gw')))"

definition on_close :: "Session \<Rightarrow> MCPGateway \<Rightarrow> MCPGateway" where
  "on_close session gw =
     gw\<lparr>sessionManager := removeSession (session_id session) (sessionManager gw)\<rparr>"

section \<open>Notions used in the statements\<close>

text \<open>What holds of every stored server, and whether a server is marked healthy.\<close>

definition sm_inv :: "MCPServerManager \<Rightarrow> bool" where
  "sm_inv sm =
     (\<forall>k s. Map_get (servers sm) k = Some s \<longrightarrow>
        serverId s = k \<and> url s \<noteq> [] \<and> 0 \<le> activeConnections s)"

definition healthy_at :: "string \<Rightarrow> MCPServerManager \<Rightarrow> bool" where
  "healthy_at sid sm =
     (case Map_get (servers sm) sid of None \<Rightarrow> False | Some s \<Rightarrow> isHealthy s)"

text \<open>
  The routing rule in the words of the specification, to be compared with
  \<open>resolveCapability\<close>: the key is \<open>params.name\<close> for \<open>tools/call\<close>, \<open>params.uri\<close>
  for \<open>resources/read\<close>, \<open>params.name\<close> for \<open>prompts/get\<close> and the method itself for
  any other method; the owner is the first entry of the capability map whose list
  contains the key.
\<close>

definition spec_routing_key :: "MCPRequest \<Rightarrow> json option" where
  "spec_routing_key request =
     (let method = get_prop request ''method'';
          params = get_prop request ''params''
      in if method = Some (JStr ''tools/call'') then get_prop_opt params ''name''
         else if method = Some (JStr ''resources/read'') then get_prop_opt params ''uri''
         else if method = Some (JStr ''prompts/get'') then get_prop_opt params ''name''
         else method)"

definition spec_resolveCapability :: "MCPRequest \<Rightarrow> (string \<times> string list) list \<Rightarrow> string option" where
  "spec_resolveCapability request cmap =
     map_option fst (find (\<lambda>entry. array_includes (snd entry) (spec_routing_key request)) cmap)"

text \<open>
  For the fan-out of the list methods: the URLs requested for a list of configured
  servers, the answers of the network to a sequence of requests, and what one answer
  contributes to the listing (nothing when the \<open>try\<close> block throws).
\<close>

definition mcp_urls :: "(string \<times> ServerConfig) list \<Rightarrow> string list" where
  "mcp_urls entries = map (\<lambda>entry. config_url (snd entry) @ ''/mcp'') entries"

fun answers :: "network \<Rightarrow> string list \<Rightarrow> string list \<Rightarrow> fetch_result list" where
  "answers net requested [] = []"
| "answers net requested (u # us) = net requested u # answers net (requested @ [u]) us"

definition reported :: "string \<Rightarrow> fetch_result \<Rightarrow> json list" where
  "reported key r = (case listing_of key r of Inl msg \<Rightarrow> [] | Inr items \<Rightarrow> items)"

text \<open>
  A JSON-RPC error object: \<open>jsonrpc\<close> is \<open>2.0\<close>, \<open>error\<close> is present and \<open>result\<close> is
  not. An HTTP result has this shape when it is such a response built by the gateway.
\<close>

definition jsonrpc_error_object :: "MCPResponse \<Rightarrow> bool" where
  "jsonrpc_error_object r = (jsonrpc r = ''2.0'' \<and> error r \<noteq> None \<and> result r = None)"

definition http_jsonrpc_error :: "http_result \<Rightarrow> bool" where
  "http_jsonrpc_error h =
     (case h of
        GatewayHTTP g \<Rightarrow> False
      | MCP (Gateway r) \<Rightarrow> jsonrpc_error_object r
      | MCP (Backend b) \<Rightarrow> False)"

text \<open>The frame \<open>handleWebSocketMessage\<close> sends for a message it rejects.\<close>

definition parse_error_frame :: MCPResponse where
  "parse_error_frame =
     \<lparr>jsonrpc = ''2.0'', response_id = None, result = None,
      error = Some \<lparr>code = - 32700, message = ''Parse error'', data = None\<rparr>\<rparr>"

section \<open>A concrete installation\<close>

text \<open>The data used to evaluate the definitions at concrete inputs.\<close>

definition linear_config :: ServerConfig where
  "linear_config =
     \<lparr>config_url = ''http://localhost:3001'',
      config_capabilities = [''linear_get_teams'', ''linear://teams''],
      healthCheckInterval = 15000\<rparr>"

definition probe_up :: fetch_result where
  "probe_up = FetchResponse 200 (Inr (JObj [(''status'', JStr ''ok'')]))"

definition balanced_use :: "sm_event list" where
  "balanced_use = [HealthCheck ''linear'' probe_up 1, Checkout ''linear'', Release ''linear'']"

definition double_release :: "sm_event list" where
  "double_release = balanced_use @ [Release ''linear'']"

definition linear_manager :: MCPServerManager where
  "linear_manager = new_MCPServerManager [(''linear'', linear_config)] 0"

definition call_without_name :: MCPRequest where
  "call_without_name = JObj [(''jsonrpc'', JStr ''2.0''), (''id'', JNum 7),
     (''method'', JStr ''tools/call''), (''params'', JObj [])]"

definition read_without_uri :: MCPRequest where
  "read_without_uri = JObj [(''jsonrpc'', JStr ''2.0''), (''id'', JNum 8),
     (''method'', JStr ''resources/read''), (''params'', JObj [(''uri'', JStr [])])]"

definition get_without_name :: MCPRequest where
  "get_without_name = JObj [(''jsonrpc'', JStr ''2.0''), (''id'', JNum 9),
     (''method'', JStr ''prompts/get'')]"

definition method_named_map :: "(string \<times> string list) list" where
  "method_named_map = [(''linear'', [''linear_get_teams'']),
     (''meta'', [''tools/call'', ''resources/read'', ''prompts/get'']),
     (''other'', [''tools/call''])]"

definition small_config :: GatewayConfig where
  "small_config = \<lparr>sessionTimeout = 1800000, maxConcurrentSessions = 1,
     mcpServers = [(''linear'', linear_config)]\<rparr>"

definition idle_manager :: MCPSessionManager where
  "idle_manager = snd (createSession ''s1'' ''anonymous'' Http 0 (new_MCPSessionManager small_config))"

definition one_socket :: MCPGateway where
  "one_socket = snd (handleWebSocketConnection 1 ''uuid-1'' 10 (new_MCPGateway small_config 0))"

definition two_sockets :: MCPGateway where
  "two_sockets = snd (handleWebSocketConnection 2 ''uuid-2'' 20 one_socket)"

definition call_teams :: MCPRequest where
  "call_teams = JObj [(''jsonrpc'', JStr ''2.0''), (''id'', JNum 42),
     (''method'', JStr ''tools/call''), (''params'', JObj [(''name'', JStr ''linear_get_teams'')])]"

definition call_unknown :: MCPRequest where
  "call_unknown = JObj [(''jsonrpc'', JStr ''2.0''), (''id'', JStr ''abc''),
     (''method'', JStr ''tools/call''), (''params'', JObj [(''name'', JStr ''nonexistent_tool'')])]"

definition shared_map :: "(string \<times> string list) list" where
  "shared_map = [(''perplexity'', [''perplexity_search'']),
     (''linear'', [''linear_get_teams'', ''linear://teams'']),
     (''mirror'', [''linear_get_teams''])]"

definition routing_config :: GatewayConfig where
  "routing_config = \<lparr>sessionTimeout = 1800000, maxConcurrentSessions = 100,
     mcpServers = [(''linear'', linear_config)]\<rparr>"

definition fresh_gateway :: MCPGateway where
  "fresh_gateway = new_MCPGateway routing_config 0"

definition no_network :: network where
  "no_network requested u = FetchThrew ''connect ECONNREFUSED''"

definition ping_42 :: MCPRequest where
  "ping_42 = JObj [(''jsonrpc'', JStr ''2.0''), (''id'', JNum 42), (''method'', JStr ''ping'')]"

definition perplexity_config :: ServerConfig where
  "perplexity_config =
     \<lparr>config_url = ''http://localhost:3002'',
      config_capabilities = [''perplexity_search''],
      healthCheckInterval = 15000\<rparr>"

definition devtools_config :: ServerConfig where
  "devtools_config =
     \<lparr>config_url = ''http://localhost:3004'',
      config_capabilities = [''chrome_start'', ''console_logs''],
      healthCheckInterval = 15000\<rparr>"

definition three_config :: GatewayConfig where
  "three_config = \<lparr>sessionTimeout = 1800000, maxConcurrentSessions = 100,
     mcpServers = [(''linear'', linear_config), (''perplexity'', perplexity_config),
       (''devtools'', devtools_config)]\<rparr>"

definition three_gateway :: MCPGateway where
  "three_gateway = new_MCPGateway three_config 0"

definition tool :: "string \<Rightarrow> json" where
  "tool n = JObj [(''name'', JStr n)]"

definition one_down :: network where
  "one_down requested u =
     (if u = ''http://localhost:3001/mcp'' then
        FetchResponse 200 (Inr (JObj [(''jsonrpc'', JStr ''2.0''),
          (''result'', JObj [(''tools'', JArr [tool ''linear_get_teams''])])]))
      else if u = ''http://localhost:3004/mcp'' then
        FetchResponse 200 (Inr (JObj [(''jsonrpc'', JStr ''2.0''),
          (''result'', JObj [(''tools'', JArr [tool ''chrome_start'', tool ''console_logs''])])]))
      else if u = ''http://localhost:3002/mcp'' then FetchResponse 503 (Inl ''Unexpected token'')
      else FetchThrew ''getaddrinfo ENOTFOUND'')"

definition list_tools :: MCPRequest where
  "list_tools = JObj [(''jsonrpc'', JStr ''2.0''), (''id'', JNum 1), (''method'', JStr ''tools/list'')]"

definition no_tokens :: "string \<Rightarrow> string option" where
  "no_tokens token = None"

definition no_headers :: HTTPHeaders where
  "no_headers = \<lparr>authorization = None, Authorization = None\<rparr>"

definition bare_ping :: json where
  "bare_ping = JObj [(''id'', JNum 1), (''method'', JStr ''ping'')]"

definition healthy_gateway :: MCPGateway where
  "healthy_gateway =
     fresh_gateway\<lparr>serverManager := performHealthCheck ''linear'' probe_up 1 (serverManager fresh_gateway)\<rparr>"

definition probe_down :: fetch_result where
  "probe_down = FetchResponse 503 (Inl ''Unexpected token'')"

definition mixed_config :: GatewayConfig where
  "mixed_config = \<lparr>sessionTimeout = 1800000, maxConcurrentSessions = 100,
     mcpServers = [(''perplexity'', perplexity_config), (''linear'', linear_config)]\<rparr>"

definition mixed_probes :: "sm_event list" where
  "mixed_probes = [HealthCheck ''perplexity'' probe_down 1, HealthCheck ''linear'' probe_up 2]"

definition mixed_gateway :: MCPGateway where
  "mixed_gateway =
     (new_MCPGateway mixed_config 0)
       \<lparr>serverManager := sm_run mixed_probes (new_MCPServerManager (mcpServers mixed_config) 0)\<rparr>"

definition call_search :: MCPRequest where
  "call_search = JObj [(''jsonrpc'', JStr ''2.0''), (''id'', JNum 5),
     (''method'', JStr ''tools/call''), (''params'', JObj [(''name'', JStr ''perplexity_search'')])]"

definition backend_500 :: network where
  "backend_500 requested u = FetchResponse 500 (Inr (JObj [(''message'', JStr ''boom'')]))"

section \<open>Health gating and the connection counter\<close>

lemma Map_get_Map_set: "Map_get (Map_set k v m) k' = (if k' = k then Some v else Map_get m k')"
  by (induction m) (auto simp: Map_get_def)

lemma getServerInstance_healthy_at: "(fst (getServerInstance sid sm) \<noteq> None) = healthy_at sid sm"
  by (simp add: getServerInstance_def healthy_at_def Let_def split: option.splits)

lemma register_server_inv:
  assumes "\<forall>k s. Map_get m k = Some s \<longrightarrow> serverId s = k \<and> url s \<noteq> [] \<and> activeConnections s = 0 \<and> \<not> isHealthy s"
  shows "\<forall>k s. Map_get (register_server now e m) k = Some s \<longrightarrow> serverId s = k \<and> url s \<noteq> [] \<and> activeConnections s = 0 \<and> \<not> isHealthy s"
  using assms by (cases e) (auto simp: register_server_def Map_get_Map_set)

lemma fold_register_inv:
  "\<forall>k s. Map_get m k = Some s \<longrightarrow> serverId s = k \<and> url s \<noteq> [] \<and> activeConnections s = 0 \<and> \<not> isHealthy s
   \<Longrightarrow> \<forall>k s. Map_get (fold (register_server now) cfg m) k = Some s \<longrightarrow> serverId s = k \<and> url s \<noteq> [] \<and> activeConnections s = 0 \<and> \<not> isHealthy s"
proof (induction cfg arbitrary: m)
  case Nil
  then show ?case by simp
next
  case (Cons e cfg)
  have "\<forall>k s. Map_get (register_server now e m) k = Some s \<longrightarrow> serverId s = k \<and> url s \<noteq> [] \<and> activeConnections s = 0 \<and> \<not> isHealthy s"
    using Cons.prems by (rule register_server_inv)
  from Cons.IH [OF this] show ?case by simp
qed

lemma new_fresh:
  "Map_get (servers (new_MCPServerManager cfg t0)) k = Some s
   \<Longrightarrow> serverId s = k \<and> url s \<noteq> [] \<and> activeConnections s = 0 \<and> \<not> isHealthy s"
  using fold_register_inv [of "[]" now cfg for now]
  by (simp add: new_MCPServerManager_def Map_get_def)

lemma new_inv: "sm_inv (new_MCPServerManager cfg t0)"
  unfolding sm_inv_def using new_fresh by fastforce

lemma step_inv: "sm_inv sm \<Longrightarrow> sm_inv (sm_step e sm)"
  by (cases e)
     (auto simp: sm_inv_def performHealthCheck_def getServerInstance_def releaseServerInstance_def
        Map_get_Map_set Let_def split: option.splits fetch_result.splits if_splits)

lemma run_inv: "sm_inv sm \<Longrightarrow> sm_inv (sm_run evs sm)"
  by (induction evs arbitrary: sm) (simp_all add: sm_run_def step_inv)

lemma step_present:
  "(Map_get (servers (sm_step e sm)) k = None) = (Map_get (servers sm) k = None)"
  by (cases e)
     (auto simp: performHealthCheck_def getServerInstance_def releaseServerInstance_def
        Map_get_Map_set Let_def split: option.splits fetch_result.splits if_splits)

lemma run_present:
  "(Map_get (servers (sm_run evs sm)) k = None) = (Map_get (servers sm) k = None)"
  by (induction evs arbitrary: sm) (simp_all add: sm_run_def step_present)

lemma step_healthy:
  "sm_inv sm \<Longrightarrow> Map_get (servers sm) B \<noteq> None \<Longrightarrow>
   healthy_at B (sm_step e sm) =
     (case e of HealthCheck k r now \<Rightarrow> if k = B then probe_2xx r else healthy_at B sm
      | _ \<Rightarrow> healthy_at B sm)"
  by (cases e)
     (auto simp: sm_inv_def healthy_at_def probe_2xx_def performHealthCheck_def getServerInstance_def
        releaseServerInstance_def Map_get_Map_set Let_def
        split: option.splits fetch_result.splits if_splits)

lemma run_healthy:
  "sm_inv sm \<Longrightarrow> Map_get (servers sm) B \<noteq> None \<Longrightarrow>
   healthy_at B (sm_run evs sm) =
     (case last_probe B evs of Some r \<Rightarrow> probe_2xx r | None \<Rightarrow> healthy_at B sm)"
proof (induction evs arbitrary: sm)
  case Nil
  then show ?case by (simp add: sm_run_def)
next
  case (Cons e evs)
  have i: "sm_inv (sm_step e sm)" using Cons.prems(1) by (rule step_inv)
  have p: "Map_get (servers (sm_step e sm)) B \<noteq> None"
    using Cons.prems(2) by (simp add: step_present)
  have "healthy_at B (sm_run (e # evs) sm) = healthy_at B (sm_run evs (sm_step e sm))"
    by (simp add: sm_run_def)
  also have "\<dots> = (case last_probe B evs of Some r \<Rightarrow> probe_2xx r | None \<Rightarrow> healthy_at B (sm_step e sm))"
    by (rule Cons.IH [OF i p])
  finally show ?case
    using step_healthy [OF Cons.prems, of e]
    by (auto split: option.splits sm_event.splits)
qed

lemma last_probe_gates:
  "(fst (getServerInstance B (sm_run evs (new_MCPServerManager cfg t0))) \<noteq> None)
   = (Map_get (servers (new_MCPServerManager cfg t0)) B \<noteq> None
      \<and> (\<exists>r. last_probe B evs = Some r \<and> probe_2xx r))"
proof (cases "Map_get (servers (new_MCPServerManager cfg t0)) B")
  case None
  then have "Map_get (servers (sm_run evs (new_MCPServerManager cfg t0))) B = None"
    by (simp add: run_present)
  then show ?thesis using None
    by (simp add: getServerInstance_def)
next
  case (Some s)
  have n: "\<not> healthy_at B (new_MCPServerManager cfg t0)"
    using new_fresh [OF Some] Some by (simp add: healthy_at_def)
  have p: "Map_get (servers (new_MCPServerManager cfg t0)) B \<noteq> None"
    using Some by simp
  have "(fst (getServerInstance B (sm_run evs (new_MCPServerManager cfg t0))) \<noteq> None)
        = healthy_at B (sm_run evs (new_MCPServerManager cfg t0))"
    by (rule getServerInstance_healthy_at)
  also have "\<dots> = (case last_probe B evs of Some r \<Rightarrow> probe_2xx r
                     | None \<Rightarrow> healthy_at B (new_MCPServerManager cfg t0))"
    by (rule run_healthy [OF new_inv p])
  also have "\<dots> = (\<exists>r. last_probe B evs = Some r \<and> probe_2xx r)"
    using n by (cases "last_probe B evs") simp_all
  finally show ?thesis using p by simp
qed


lemma connections_nonneg: "sm_inv sm \<Longrightarrow> 0 \<le> connections_of B sm"
  by (auto simp: sm_inv_def connections_of_def split: option.splits)

lemma step_connections:
  "sm_inv sm \<Longrightarrow>
   connections_of B (sm_step e sm) =
     (if e = Checkout B \<and> fst (getServerInstance B sm) \<noteq> None then connections_of B sm + 1
      else if e = Release B \<and> 0 < connections_of B sm then connections_of B sm - 1
      else connections_of B sm)"
  by (cases e)
     (auto simp: sm_inv_def connections_of_def performHealthCheck_def getServerInstance_def
        releaseServerInstance_def Map_get_Map_set Let_def
        split: option.splits fetch_result.splits if_splits)

lemma sm_run_snoc: "sm_run (evs @ [e]) sm = sm_step e (sm_run evs sm)"
  by (simp add: sm_run_def)

lemma checkouts_snoc:
  "checkouts B (evs @ [e]) sm =
     checkouts B evs sm
       + (if e = Checkout B \<and> fst (getServerInstance B (sm_run evs sm)) \<noteq> None then 1 else 0)"
  by (induction evs arbitrary: sm) (simp_all add: sm_run_def)

lemma releases_snoc:
  "releases B (evs @ [e]) = releases B evs + (if e = Release B then 1 else 0)"
  by (induction evs) simp_all

lemma balanced_connections:
  "sm_inv sm \<Longrightarrow>
   \<forall>n\<le>length evs. releases B (take n evs) \<le> checkouts B (take n evs) sm \<Longrightarrow>
   connections_of B (sm_run evs sm) = connections_of B sm + checkouts B evs sm - releases B evs"
proof (induction evs rule: rev_induct)
  case Nil
  then show ?case by (simp add: sm_run_def)
next
  case (snoc e evs)
  have pre: "\<forall>n\<le>length evs. releases B (take n evs) \<le> checkouts B (take n evs) sm"
  proof (intro allI impI)
    fix n assume n: "n \<le> length evs"
    then have "n \<le> length (evs @ [e])" by simp
    with snoc.prems(2) have "releases B (take n (evs @ [e])) \<le> checkouts B (take n (evs @ [e])) sm"
      by blast
    with n show "releases B (take n evs) \<le> checkouts B (take n evs) sm" by simp
  qed
  have ih: "connections_of B (sm_run evs sm) = connections_of B sm + checkouts B evs sm - releases B evs"
    by (rule snoc.IH [OF snoc.prems(1) pre])
  have full: "releases B (evs @ [e]) \<le> checkouts B (evs @ [e]) sm"
    using snoc.prems(2) by (metis order_refl take_all)
  have nn: "0 \<le> connections_of B sm"
    using snoc.prems(1) by (rule connections_nonneg)
  have inv: "sm_inv (sm_run evs sm)"
    using snoc.prems(1) by (rule run_inv)
  show ?case
    using ih full nn step_connections [OF inv, of B e]
    by (auto simp: sm_run_snoc checkouts_snoc releases_snoc split: if_splits)
qed

text \<open>
  Claim C3, as amended. At every point of every history \<open>activeConnections\<close> of a
  backend is at least zero; and it equals the number of successful checkouts minus the
  number of releases as long as, at every earlier point, the releases did not outnumber
  the successful checkouts (no release found the counter at zero).
\<close>

theorem counter_invariant:
  "0 \<le> connections_of B (sm_run evs (new_MCPServerManager cfg t0)) \<and>
   ((\<forall>n\<le>length evs. releases B (take n evs)
        \<le> checkouts B (take n evs) (new_MCPServerManager cfg t0)) \<longrightarrow>
    connections_of B (sm_run evs (new_MCPServerManager cfg t0))
      = checkouts B evs (new_MCPServerManager cfg t0) - releases B evs)"
proof -
  have z: "connections_of B (new_MCPServerManager cfg t0) = 0"
    using new_fresh [of cfg t0 B] by (auto simp: connections_of_def split: option.splits)
  show ?thesis
    using connections_nonneg [OF run_inv [OF new_inv], of B evs cfg t0]
      balanced_connections [OF new_inv, of evs B cfg t0] z
    by simp
qed

lemmas sm_eval =
  linear_manager_def linear_config_def probe_up_def new_MCPServerManager_def
  register_server_def sm_run_def performHealthCheck_def getServerInstance_def
  releaseServerInstance_def Map_get_def connections_of_def response_ok_def Let_def

lemma balanced_use_prefixes:
  "\<forall>n\<le>length balanced_use. releases ''linear'' (take n balanced_use)
        \<le> checkouts ''linear'' (take n balanced_use) linear_manager"
proof (intro allI impI)
  fix n assume "n \<le> length balanced_use"
  then have "n = 0 \<or> n = 1 \<or> n = 2 \<or> n = 3"
    by (auto simp: balanced_use_def)
  then show "releases ''linear'' (take n balanced_use)
        \<le> checkouts ''linear'' (take n balanced_use) linear_manager"
    by (elim disjE) (simp_all add: balanced_use_def sm_eval)
qed

theorem counter_invariant_witness:
  "checkouts ''linear'' balanced_use linear_manager = 1
   \<and> releases ''linear'' balanced_use = 1
   \<and> connections_of ''linear'' (sm_run balanced_use linear_manager) = 0"
proof -
  have c: "checkouts ''linear'' balanced_use linear_manager = 1"
    by (simp add: balanced_use_def sm_eval)
  have r: "releases ''linear'' balanced_use = 1"
    by (simp add: balanced_use_def)
  show ?thesis
    using counter_invariant [of "''linear''" balanced_use "[(''linear'', linear_config)]" 0]
      balanced_use_prefixes c r
    by (simp add: linear_manager_def)
qed

text \<open>
  Claim C3 as stated fails: after one successful checkout the instance is released
  twice; the second release finds the counter at zero and leaves it there, while
  checkouts minus releases is \<open>-1\<close>.
\<close>

theorem counter_difference_counterexample:
  "connections_of ''linear'' (sm_run double_release linear_manager)
     \<noteq> checkouts ''linear'' double_release linear_manager - releases ''linear'' double_release"
  by (simp add: double_release_def balanced_use_def sm_eval)

section \<open>Routing keys and capability resolution\<close>

lemma getCapabilityToResolve_eq: "getCapabilityToResolve request = capabilityToResolve request"
  by (simp add: getCapabilityToResolve_def capabilityToResolve_def Let_def)

text \<open>
  Claim C10. When a \<open>tools/call\<close>, \<open>resources/read\<close> or \<open>prompts/get\<close> request has
  no routing parameter (\<open>params.name\<close>, \<open>params.uri\<close>), or a falsy one, the routing key
  is the method string itself, both in \<open>resolveCapability\<close> and in
  \<open>getCapabilityToResolve\<close>; resolution then proceeds with that key.
\<close>

theorem routing_key_fallback:
  "(get_prop request ''method'' = Some (JStr ''tools/call'')
      \<and> \<not> truthy_opt (get_prop_opt (get_prop request ''params'') ''name'')
    \<longrightarrow> capabilityToResolve request = Some (JStr ''tools/call'')
        \<and> getCapabilityToResolve request = Some (JStr ''tools/call'')
        \<and> resolveCapability request cmap = scan_capabilityMap cmap (Some (JStr ''tools/call'')))
   \<and> (get_prop request ''method'' = Some (JStr ''resources/read'')
      \<and> \<not> truthy_opt (get_prop_opt (get_prop request ''params'') ''uri'')
    \<longrightarrow> capabilityToResolve request = Some (JStr ''resources/read'')
        \<and> getCapabilityToResolve request = Some (JStr ''resources/read'')
        \<and> resolveCapability request cmap = scan_capabilityMap cmap (Some (JStr ''resources/read'')))
   \<and> (get_prop request ''method'' = Some (JStr ''prompts/get'')
      \<and> \<not> truthy_opt (get_prop_opt (get_prop request ''params'') ''name'')
    \<longrightarrow> capabilityToResolve request = Some (JStr ''prompts/get'')
        \<and> getCapabilityToResolve request = Some (JStr ''prompts/get'')
        \<and> resolveCapability request cmap = scan_capabilityMap cmap (Some (JStr ''prompts/get'')))"
  by (simp add: getCapabilityToResolve_def capabilityToResolve_def resolveCapability_def Let_def)

theorem routing_key_fallback_witness:
  "capabilityToResolve call_without_name = Some (JStr ''tools/call'')
   \<and> getCapabilityToResolve read_without_uri = Some (JStr ''resources/read'')
   \<and> getCapabilityToResolve get_without_name = Some (JStr ''prompts/get'')
   \<and> resolveCapability call_without_name method_named_map = Some ''meta''
   \<and> resolveCapability read_without_uri method_named_map = Some ''meta''
   \<and> resolveCapability get_without_name method_named_map = Some ''meta''"
  using routing_key_fallback [of call_without_name method_named_map]
    routing_key_fallback [of read_without_uri method_named_map]
    routing_key_fallback [of get_without_name method_named_map]
  by (simp add: call_without_name_def read_without_uri_def get_without_name_def method_named_map_def)

lemma scan_None:
  "(scan_capabilityMap cmap c = None) = (\<forall>entry\<in>set cmap. \<not> array_includes (snd entry) c)"
  by (induction cmap) (auto split: if_splits)

lemma scan_Some:
  "(scan_capabilityMap cmap c = Some sid) =
     (\<exists>before caps after. cmap = before @ (sid, caps) # after \<and> array_includes caps c
        \<and> (\<forall>entry\<in>set before. \<not> array_includes (snd entry) c))"
proof (induction cmap)
  case Nil
  then show ?case by simp
next
  case (Cons e cmap)
  obtain k caps0 where e: "e = (k, caps0)" by (cases e)
  show ?case
  proof (cases "array_includes caps0 c")
    case True
    have "(\<exists>before caps after. e # cmap = before @ (sid, caps) # after \<and> array_includes caps c
        \<and> (\<forall>entry\<in>set before. \<not> array_includes (snd entry) c)) = (k = sid)"
    proof
      assume "\<exists>before caps after. e # cmap = before @ (sid, caps) # after \<and> array_includes caps c
        \<and> (\<forall>entry\<in>set before. \<not> array_includes (snd entry) c)"
      then obtain before caps after where d: "e # cmap = before @ (sid, caps) # after"
        and n: "\<forall>entry\<in>set before. \<not> array_includes (snd entry) c" by blast
      show "k = sid"
      proof (cases before)
        case Nil
        with d e show ?thesis by simp
      next
        case (Cons b bs)
        with d have "b = e" by simp
        with n Cons e True show ?thesis by simp
      qed
    next
      assume "k = sid"
      then have "e # cmap = [] @ (sid, caps0) # cmap" using e by simp
      with True show "\<exists>before caps after. e # cmap = before @ (sid, caps) # after \<and> array_includes caps c
        \<and> (\<forall>entry\<in>set before. \<not> array_includes (snd entry) c)" by fastforce
    qed
    with True e show ?thesis by auto
  next
    case False
    have "(\<exists>before caps after. e # cmap = before @ (sid, caps) # after \<and> array_includes caps c
        \<and> (\<forall>entry\<in>set before. \<not> array_includes (snd entry) c))
      = (\<exists>before caps after. cmap = before @ (sid, caps) # after \<and> array_includes caps c
        \<and> (\<forall>entry\<in>set before. \<not> array_includes (snd entry) c))"
    proof
      assume "\<exists>before caps after. e # cmap = before @ (sid, caps) # after \<and> array_includes caps c
        \<and> (\<forall>entry\<in>set before. \<not> array_includes (snd entry) c)"
      then obtain before caps after where d: "e # cmap = before @ (sid, caps) # after"
        and i: "array_includes caps c"
        and n: "\<forall>entry\<in>set before. \<not> array_includes (snd entry) c" by blast
      show "\<exists>before caps after. cmap = before @ (sid, caps) # after \<and> array_includes caps c
        \<and> (\<forall>entry\<in>set before. \<not> array_includes (snd entry) c)"
      proof (cases before)
        case Nil
        with d e i False show ?thesis by simp
      next
        case (Cons b bs)
        with d have "cmap = bs @ (sid, caps) # after" by simp
        with i n Cons show ?thesis by auto
      qed
    next
      assume "\<exists>before caps after. cmap = before @ (sid, caps) # after \<and> array_includes caps c
        \<and> (\<forall>entry\<in>set before. \<not> array_includes (snd entry) c)"
      then obtain before caps after where d: "cmap = before @ (sid, caps) # after"
        and i: "array_includes caps c"
        and n: "\<forall>entry\<in>set before. \<not> array_includes (snd entry) c" by blast
      have "e # cmap = (e # before) @ (sid, caps) # after" using d by simp
      moreover have "\<forall>entry\<in>set (e # before). \<not> array_includes (snd entry) c"
        using n e False by simp
      ultimately show "\<exists>before caps after. e # cmap = before @ (sid, caps) # after \<and> array_includes caps c
        \<and> (\<forall>entry\<in>set before. \<not> array_includes (snd entry) c)"
        using i by blast
    qed
    with False e Cons.IH show ?thesis by simp
  qed
qed

text \<open>
  Claim C6, as amended. The routing key is \<open>params.name\<close> for \<open>tools/call\<close>,
  \<open>params.uri\<close> for \<open>resources/read\<close> and \<open>params.name\<close> for \<open>prompts/get\<close> when that
  parameter is present and truthy, and the method itself otherwise. \<open>resolveCapability\<close>
  returns the id of the first entry of the capability map, in iteration order, whose
  list contains the key, and \<open>null\<close> exactly when no list contains it: of two backends
  that declare the same capability the earlier one wins.
\<close>

theorem resolveCapability_first_owner:
  "capabilityToResolve request =
     (let method = get_prop request ''method''; params = get_prop request ''params''
      in if method = Some (JStr ''tools/call'') \<and> truthy_opt (get_prop_opt params ''name'')
         then get_prop_opt params ''name''
         else if method = Some (JStr ''resources/read'') \<and> truthy_opt (get_prop_opt params ''uri'')
         then get_prop_opt params ''uri''
         else if method = Some (JStr ''prompts/get'') \<and> truthy_opt (get_prop_opt params ''name'')
         then get_prop_opt params ''name''
         else method)
   \<and> (resolveCapability request cmap = None)
       = (\<forall>entry\<in>set cmap. \<not> array_includes (snd entry) (capabilityToResolve request))
   \<and> (resolveCapability request cmap = Some sid)
       = (\<exists>before caps after. cmap = before @ (sid, caps) # after
            \<and> array_includes caps (capabilityToResolve request)
            \<and> (\<forall>entry\<in>set before. \<not> array_includes (snd entry) (capabilityToResolve request)))"
proof (intro conjI)
  show "capabilityToResolve request =
     (let method = get_prop request ''method''; params = get_prop request ''params''
      in if method = Some (JStr ''tools/call'') \<and> truthy_opt (get_prop_opt params ''name'')
         then get_prop_opt params ''name''
         else if method = Some (JStr ''resources/read'') \<and> truthy_opt (get_prop_opt params ''uri'')
         then get_prop_opt params ''uri''
         else if method = Some (JStr ''prompts/get'') \<and> truthy_opt (get_prop_opt params ''name'')
         then get_prop_opt params ''name''
         else method)"
    by (simp add: capabilityToResolve_def Let_def)
  show "(resolveCapability request cmap = None)
       = (\<forall>entry\<in>set cmap. \<not> array_includes (snd entry) (capabilityToResolve request))"
    unfolding resolveCapability_def by (rule scan_None)
  show "(resolveCapability request cmap = Some sid)
       = (\<exists>before caps after. cmap = before @ (sid, caps) # after
            \<and> array_includes caps (capabilityToResolve request)
            \<and> (\<forall>entry\<in>set before. \<not> array_includes (snd entry) (capabilityToResolve request)))"
    unfolding resolveCapability_def by (rule scan_Some)
qed

theorem resolveCapability_first_owner_witness:
  "capabilityToResolve call_teams = Some (JStr ''linear_get_teams'')
   \<and> resolveCapability call_teams shared_map = Some ''linear''
   \<and> resolveCapability call_unknown shared_map = None"
proof -
  have k: "capabilityToResolve call_teams = Some (JStr ''linear_get_teams'')"
    using resolveCapability_first_owner [of call_teams shared_map "''linear''", THEN conjunct1]
    by (simp add: call_teams_def)
  have k': "capabilityToResolve call_unknown = Some (JStr ''nonexistent_tool'')"
    by (simp add: capabilityToResolve_def call_unknown_def)
  have "shared_map = [(''perplexity'', [''perplexity_search''])]
          @ (''linear'', [''linear_get_teams'', ''linear://teams'']) # [(''mirror'', [''linear_get_teams''])]
        \<and> array_includes [''linear_get_teams'', ''linear://teams''] (capabilityToResolve call_teams)
        \<and> (\<forall>entry\<in>set [(''perplexity'', [''perplexity_search''])].
              \<not> array_includes (snd entry) (capabilityToResolve call_teams))"
    by (simp add: k shared_map_def)
  then have "\<exists>before caps after. shared_map = before @ (''linear'', caps) # after
        \<and> array_includes caps (capabilityToResolve call_teams)
        \<and> (\<forall>entry\<in>set before. \<not> array_includes (snd entry) (capabilityToResolve call_teams))"
    by blast
  then have o: "resolveCapability call_teams shared_map = Some ''linear''"
    by (rule resolveCapability_first_owner [of call_teams shared_map "''linear''",
          THEN conjunct2, THEN conjunct2, THEN iffD2])
  have "\<forall>entry\<in>set shared_map. \<not> array_includes (snd entry) (capabilityToResolve call_unknown)"
    by (simp add: k' shared_map_def)
  then have n: "resolveCapability call_unknown shared_map = None"
    by (rule resolveCapability_first_owner [of call_unknown shared_map "''linear''",
          THEN conjunct2, THEN conjunct1, THEN iffD2])
  from k o n show ?thesis by simp
qed

text \<open>
  Claim C6 as stated fails: for a \<open>tools/call\<close> request without \<open>params.name\<close> the
  key is not \<open>params.name\<close> (which is absent) but the method string, and a backend
  that lists \<open>tools/call\<close> is returned where the stated rule finds none.
\<close>

theorem routing_key_counterexample: "capabilityToResolve call_without_name \<noteq> spec_routing_key call_without_name
  \<and> resolveCapability call_without_name method_named_map \<noteq> spec_resolveCapability call_without_name method_named_map"
  by (simp add: call_without_name_def method_named_map_def capabilityToResolve_def spec_routing_key_def
    resolveCapability_def spec_resolveCapability_def Let_def)

section \<open>Session lookup and expiry\<close>

lemma Map_get_Map_delete: "Map_get (Map_delete k m) k' = (if k' = k then None else Map_get m k')"
  by (induction m) (auto simp: Map_get_def Map_delete_def)

lemma removeSession_get:
  "Map_get (sessions (removeSession k ssm)) k' = (if k' = k then None else Map_get (sessions ssm) k')"
  by (auto simp: removeSession_def Map_get_Map_delete split: option.splits)

lemma fold_removeSession_get:
  "Map_get (sessions (fold removeSession ids ssm)) k =
     (if k \<in> set ids then None else Map_get (sessions ssm) k)"
  by (induction ids arbitrary: ssm) (simp_all add: removeSession_get)

lemma expired_listed:
  "Map_get m k = Some s \<Longrightarrow> now - lastActivity s > timeout \<Longrightarrow> k \<in> set (expiredSessions now timeout m)"
  by (induction m) (auto simp: Map_get_def Let_def split: if_splits)

lemma swept_absent:
  "Map_get (sessions ssm) k = Some s \<Longrightarrow> t - lastActivity s > sessionTimeout (config ssm)
   \<Longrightarrow> Map_get (sessions (cleanupExpiredSessions t ssm)) k = None"
  by (simp add: cleanupExpiredSessions_def fold_removeSession_get expired_listed)

text \<open>
  Claim C9, as amended. \<open>getSession\<close> returns the stored session with \<open>lastActivity\<close>
  set to now and stores the refreshed session, leaving every other session as it was;
  it returns \<open>null\<close>, changing nothing, when the session is not stored, which is the
  case in particular after a sweep that found the session idle for longer than
  \<open>sessionTimeout\<close>.
\<close>

theorem getSession_sliding:
  "(\<forall>s. Map_get (sessions ssm) k = Some s \<longrightarrow>
      fst (getSession k now ssm) = Some (s\<lparr>lastActivity := now\<rparr>)
      \<and> Map_get (sessions (snd (getSession k now ssm))) k = Some (s\<lparr>lastActivity := now\<rparr>))
   \<and> (Map_get (sessions ssm) k = None \<longrightarrow> getSession k now ssm = (None, ssm))
   \<and> (\<forall>k'. k' \<noteq> k \<longrightarrow>
        Map_get (sessions (snd (getSession k now ssm))) k' = Map_get (sessions ssm) k')
   \<and> (\<forall>s t. Map_get (sessions ssm) k = Some s \<and> t - lastActivity s > sessionTimeout (config ssm)
        \<longrightarrow> fst (getSession k now (cleanupExpiredSessions t ssm)) = None)"
proof (intro conjI allI impI)
  fix s assume "Map_get (sessions ssm) k = Some s"
  then show "fst (getSession k now ssm) = Some (s\<lparr>lastActivity := now\<rparr>)"
    and "Map_get (sessions (snd (getSession k now ssm))) k = Some (s\<lparr>lastActivity := now\<rparr>)"
    by (simp_all add: getSession_def Let_def Map_get_Map_set)
next
  assume "Map_get (sessions ssm) k = None"
  then show "getSession k now ssm = (None, ssm)"
    by (simp add: getSession_def)
next
  fix k' assume "k' \<noteq> k"
  then show "Map_get (sessions (snd (getSession k now ssm))) k' = Map_get (sessions ssm) k'"
    by (simp add: getSession_def Let_def Map_get_Map_set split: option.splits)
next
  fix s t
  assume "Map_get (sessions ssm) k = Some s \<and> t - lastActivity s > sessionTimeout (config ssm)"
  then have "Map_get (sessions (cleanupExpiredSessions t ssm)) k = None"
    by (simp add: swept_absent)
  then show "fst (getSession k now (cleanupExpiredSessions t ssm)) = None"
    by (simp add: getSession_def)
qed

lemmas session_eval = idle_manager_def small_config_def new_MCPSessionManager_def createSession_def
  getSession_def Map_get_def Let_def cleanupExpiredSessions_def removeSession_def Map_delete_def

lemma idle_lookup: "Map_get (sessions idle_manager) ''s1'' =
   Some \<lparr>session_id = ''s1'', userId = ''anonymous'', createdAt = 0, lastActivity = 0,
       serverConnections = [], transport = Http, connection = None\<rparr>"
  by (simp add: session_eval)

theorem getSession_sliding_witness:
  "fst (getSession ''s1'' 60000 idle_manager) =
     Some \<lparr>session_id = ''s1'', userId = ''anonymous'', createdAt = 0, lastActivity = 60000,
       serverConnections = [], transport = Http, connection = None\<rparr>
   \<and> getSession ''s2'' 60000 idle_manager = (None, idle_manager)
   \<and> Map_get (sessions (snd (getSession ''s2'' 60000 idle_manager))) ''s1''
       = Map_get (sessions idle_manager) ''s1''
   \<and> fst (getSession ''s1'' 1860002 (cleanupExpiredSessions 1860001 idle_manager)) = None"
proof -
  let ?s = "\<lparr>session_id = ''s1'', userId = ''anonymous'', createdAt = 0, lastActivity = 0,
       serverConnections = [], transport = Http, connection = None\<rparr>"
  have a: "Map_get (sessions idle_manager) ''s2'' = None"
    by (simp add: session_eval)
  have t: "1860001 - lastActivity ?s > sessionTimeout (config idle_manager)"
    by (simp add: session_eval)
  have d: "''s1'' \<noteq> ''s2''" by simp
  have c1: "fst (getSession ''s1'' 60000 idle_manager) = Some (?s\<lparr>lastActivity := 60000\<rparr>)"
    using getSession_sliding [of idle_manager "''s1''" 60000, THEN conjunct1, rule_format,
      OF idle_lookup] by (rule conjunct1)
  have c2: "getSession ''s2'' 60000 idle_manager = (None, idle_manager)"
    by (rule getSession_sliding [of idle_manager "''s2''" 60000, THEN conjunct2, THEN conjunct1,
      rule_format, OF a])
  have c3: "Map_get (sessions (snd (getSession ''s2'' 60000 idle_manager))) ''s1''
       = Map_get (sessions idle_manager) ''s1''"
    by (rule getSession_sliding [of idle_manager "''s2''" 60000, THEN conjunct2, THEN conjunct2,
      THEN conjunct1, rule_format, OF d])
  have c4: "fst (getSession ''s1'' 1860002 (cleanupExpiredSessions 1860001 idle_manager)) = None"
    by (rule getSession_sliding [of idle_manager "''s1''" 1860002, THEN conjunct2, THEN conjunct2,
      THEN conjunct2, rule_format, OF conjI, OF idle_lookup t])
  from c1 c2 c3 c4 show ?thesis by simp
qed

text \<open>
  Claim C9 as stated fails. A session last active at time 0 survives the sweep at
  1800000, when it has been idle for exactly \<open>sessionTimeout\<close>; at 1830000, before
  the next sweep, it has been idle for longer than \<open>sessionTimeout\<close>, and \<open>getSession\<close>
  still returns it, refreshed.
\<close>

theorem expired_session_counterexample:
  "1830000 - 0 > sessionTimeout (config idle_manager)
   \<and> fst (getSession ''s1'' 1830000 (cleanupExpiredSessions 1800000 idle_manager)) =
       Some \<lparr>session_id = ''s1'', userId = ''anonymous'', createdAt = 0, lastActivity = 1830000,
         serverConnections = [], transport = Http, connection = None\<rparr>"
  by (simp add: session_eval)

section \<open>Session capacity\<close>

lemmas gw_eval = one_socket_def two_sockets_def handleWebSocketConnection_def new_MCPGateway_def
  attachWebSocket_def getActiveSessionCount_def canCreateNewSession_def Map_size_def

text \<open>
  Claim C2 fails on the WebSocket path: with \<open>maxConcurrentSessions = 1\<close> and one
  session open, \<open>canCreateNewSession\<close> is false, and a second WebSocket connection
  still creates a session, which makes two.
\<close>

theorem websocket_exceeds_capacity:
  "maxConcurrentSessions (config (sessionManager one_socket)) = 1
   \<and> getActiveSessionCount (sessionManager one_socket) = 1
   \<and> \<not> canCreateNewSession (sessionManager one_socket)
   \<and> getActiveSessionCount (sessionManager two_sockets) = 2"
  by (simp add: gw_eval session_eval)

lemma length_Map_set_present: "Map_get m k \<noteq> None \<Longrightarrow> length (Map_set k v m) = length m"
  by (induction m) (auto simp: Map_get_def)

lemma length_Map_set_le: "length (Map_set k v m) \<le> Suc (length m)"
  by (induction m) auto

lemma getSession_count:
  "getActiveSessionCount (snd (getSession k now ssm)) = getActiveSessionCount ssm
   \<and> config (snd (getSession k now ssm)) = config ssm"
  by (auto simp: getSession_def getActiveSessionCount_def Map_size_def Let_def length_Map_set_present
      split: option.splits)

lemma getSessionFromHeaders_count:
  "getActiveSessionCount (snd (getSessionFromHeaders verify headers now ssm)) = getActiveSessionCount ssm
   \<and> config (snd (getSessionFromHeaders verify headers now ssm)) = config ssm"
  by (auto simp: getSessionFromHeaders_def getSessionFromAuthHeader_def validateToken_def
      getSession_count Let_def split: option.splits)

lemma route_sessionManager:
  "sessionManager (snd (snd (routeAndExecuteRequest net request requested gw))) = sessionManager gw"
  by (auto simp: routeAndExecuteRequest_def Let_def split: prod.splits option.splits sum.splits)

lemma convert_and_route_sessionManager:
  "sessionManager (snd (snd (convert_and_route net body requested gw))) = sessionManager gw"
proof (cases "handleHttpToMCP body")
  case (Inl msg)
  then show ?thesis by (simp add: convert_and_route_def)
next
  case (Inr request)
  obtain r q g where e: "routeAndExecuteRequest net request requested gw = (r, q, g)"
    by (cases "routeAndExecuteRequest net request requested gw")
  with route_sessionManager [of net request requested gw] Inr show ?thesis
    by (simp add: convert_and_route_def)
qed

text \<open>
  The HTTP path does keep the bound: \<open>handleHttpRequest\<close> asks \<open>canCreateNewSession\<close>
  before it creates a session.
\<close>

lemma http_keeps_capacity:
  assumes "getActiveSessionCount (sessionManager gw) \<le> maxConcurrentSessions (config (sessionManager gw))"
  shows "getActiveSessionCount
           (sessionManager (snd (snd (handleHttpRequest verify net body headers uuid now requested gw))))
         \<le> maxConcurrentSessions (config (sessionManager gw))"
proof -
  obtain found ssm where g: "getSessionFromHeaders verify headers now (sessionManager gw) = (found, ssm)"
    by (cases "getSessionFromHeaders verify headers now (sessionManager gw)")
  have n: "getActiveSessionCount ssm = getActiveSessionCount (sessionManager gw)"
    and c: "config ssm = config (sessionManager gw)"
    using getSessionFromHeaders_count [of verify headers now "sessionManager gw"] g by simp_all
  show ?thesis
  proof (cases found)
    case (Some session)
    with g n assms show ?thesis
      by (simp add: handleHttpRequest_def convert_and_route_sessionManager)
  next
    case None
    show ?thesis
    proof (cases "canCreateNewSession ssm")
      case False
      with None g n assms show ?thesis
        by (simp add: handleHttpRequest_def)
    next
      case True
      then have "int (length (sessions ssm)) < maxConcurrentSessions (config (sessionManager gw))"
        using c by (simp add: canCreateNewSession_def Map_size_def)
      moreover have "length (Map_set uuid v (sessions ssm)) \<le> Suc (length (sessions ssm))" for v
        by (rule length_Map_set_le)
      then have "int (length (Map_set uuid v (sessions ssm))) \<le> int (length (sessions ssm)) + 1" for v
        by (metis of_nat_Suc of_nat_le_iff add.commute)
      ultimately have "int (length (Map_set uuid v (sessions ssm)))
          \<le> maxConcurrentSessions (config (sessionManager gw))" for v
        by (metis zless_imp_add1_zle order_trans)
      then have "getActiveSessionCount (snd (createSession uuid ''anonymous'' Http now ssm))
          \<le> maxConcurrentSessions (config (sessionManager gw))"
        by (simp add: createSession_def getActiveSessionCount_def Map_size_def Let_def)
      with None True g show ?thesis
        by (auto simp: handleHttpRequest_def convert_and_route_sessionManager split: prod.splits)
    qed
  qed
qed

section \<open>Routing errors and the request id\<close>

lemma error_response_id: "response_id (error_response request c m d) = get_prop request ''id''"
  by (simp add: error_response_def)

lemma success_response_id: "response_id (success_response request res) = get_prop request ''id''"
  by (simp add: success_response_def)

lemma handleProtocolMethod_id:
  "response_id (fst (handleProtocolMethod net request requested gw)) = get_prop request ''id''"
  by (simp add: handleProtocolMethod_def Let_def error_response_id success_response_id
      split: prod.splits)

text \<open>
  Claim C4. For a request whose method is not a protocol method: when no backend owns
  the capability, \<open>routeAndExecuteRequest\<close> answers with error \<open>-32601\<close>, \<open>Method not
  found\<close>, whose data names the capability that did not resolve; when a backend is
  found and \<open>getServerInstance\<close> returns \<open>null\<close> for it, the answer is error \<open>-32603\<close>,
  \<open>Internal error\<close>, whose data names the backend. (The server manager is asked only
  for a backend id that is truthy, that is, not the empty string.)
\<close>

theorem routing_errors:
  assumes "\<not> isProtocolMethod (get_prop request ''method'')"
  shows "(resolveCapability request (capabilityMap gw) = None \<longrightarrow>
            fst (routeAndExecuteRequest net request requested gw) =
              Gateway \<lparr>jsonrpc = ''2.0'', response_id = get_prop request ''id'', result = None,
                error = Some \<lparr>code = - 32601, message = ''Method not found'',
                  data = Some (JStr (''No server found for capability: ''
                                      @ template (capabilityToResolve request)))\<rparr>\<rparr>)
       \<and> (\<forall>sid. resolveCapability request (capabilityMap gw) = Some sid \<and> sid \<noteq> []
              \<and> fst (getServerInstance sid (serverManager gw)) = None \<longrightarrow>
            fst (routeAndExecuteRequest net request requested gw) =
              Gateway \<lparr>jsonrpc = ''2.0'', response_id = get_prop request ''id'', result = None,
                error = Some \<lparr>code = - 32603, message = ''Internal error'',
                  data = Some (JStr (''No healthy server instances available for: '' @ sid))\<rparr>\<rparr>)"
  using assms
  by (auto simp: routeAndExecuteRequest_def error_response_def getCapabilityToResolve_eq
      split: prod.splits option.splits)

theorem routing_errors_witness:
  "fst (routeAndExecuteRequest no_network call_unknown [] fresh_gateway) =
     Gateway \<lparr>jsonrpc = ''2.0'', response_id = Some (JStr ''abc''), result = None,
       error = Some \<lparr>code = - 32601, message = ''Method not found'',
         data = Some (JStr ''No server found for capability: nonexistent_tool'')\<rparr>\<rparr>
   \<and> fst (routeAndExecuteRequest no_network call_teams [] fresh_gateway) =
     Gateway \<lparr>jsonrpc = ''2.0'', response_id = Some (JNum 42), result = None,
       error = Some \<lparr>code = - 32603, message = ''Internal error'',
         data = Some (JStr ''No healthy server instances available for: linear'')\<rparr>\<rparr>"
proof -
  have p1: "\<not> isProtocolMethod (get_prop call_unknown ''method'')"
    by (simp add: isProtocolMethod_def call_unknown_def)
  have p2: "\<not> isProtocolMethod (get_prop call_teams ''method'')"
    by (simp add: isProtocolMethod_def call_teams_def)
  have m: "capabilityMap fresh_gateway = [(''linear'', [''linear_get_teams'', ''linear://teams''])]"
    by (simp add: fresh_gateway_def new_MCPGateway_def routing_config_def buildCapabilityMap_def
        linear_config_def)
  have r1: "resolveCapability call_unknown (capabilityMap fresh_gateway) = None"
    by (simp add: m resolveCapability_def capabilityToResolve_def call_unknown_def)
  have k1: "template (capabilityToResolve call_unknown) = ''nonexistent_tool''"
    by (simp add: capabilityToResolve_def call_unknown_def)
  have r2a: "resolveCapability call_teams (capabilityMap fresh_gateway) = Some ''linear''"
    by (simp add: m resolveCapability_def capabilityToResolve_def call_teams_def)
  have r2b: "fst (getServerInstance ''linear'' (serverManager fresh_gateway)) = None"
    by (simp add: fresh_gateway_def new_MCPGateway_def routing_config_def new_MCPServerManager_def
        register_server_def linear_config_def getServerInstance_def Map_get_def)
  have r2: "resolveCapability call_teams (capabilityMap fresh_gateway) = Some ''linear''
      \<and> ''linear'' \<noteq> []
      \<and> fst (getServerInstance ''linear'' (serverManager fresh_gateway)) = None"
    using r2a r2b by simp
  have i1: "get_prop call_unknown ''id'' = Some (JStr ''abc'')"
    by (simp add: call_unknown_def)
  have i2: "get_prop call_teams ''id'' = Some (JNum 42)"
    by (simp add: call_teams_def)
  have a: "fst (routeAndExecuteRequest no_network call_unknown [] fresh_gateway) =
     Gateway \<lparr>jsonrpc = ''2.0'', response_id = Some (JStr ''abc''), result = None,
       error = Some \<lparr>code = - 32601, message = ''Method not found'',
         data = Some (JStr ''No server found for capability: nonexistent_tool'')\<rparr>\<rparr>"
    using routing_errors [OF p1, of fresh_gateway no_network "[]", THEN conjunct1, rule_format, OF r1]
    by (simp add: k1 i1)
  have b: "fst (routeAndExecuteRequest no_network call_teams [] fresh_gateway) =
     Gateway \<lparr>jsonrpc = ''2.0'', response_id = Some (JNum 42), result = None,
       error = Some \<lparr>code = - 32603, message = ''Internal error'',
         data = Some (JStr ''No healthy server instances available for: linear'')\<rparr>\<rparr>"
    using routing_errors [OF p2, of fresh_gateway no_network "[]", THEN conjunct2, rule_format, OF r2]
    by (simp add: i2)
  from a b show ?thesis by simp
qed

lemma handleProtocolMethod_id_pair:
  "handleProtocolMethod net request requested gw = (response, requested')
   \<Longrightarrow> response_id response = get_prop request ''id''"
  using handleProtocolMethod_id [of net request requested gw] by simp

text \<open>
  Claim C8. Every response the gateway builds, in \<open>handleProtocolMethod\<close> and in
  \<open>routeAndExecuteRequest\<close> (protocol results, routing errors, converted exceptions),
  carries the \<open>id\<close> of the request as the same JSON value: a number stays a number, a
  string a string.
\<close>

theorem id_round_trip:
  "response_id (fst (handleProtocolMethod net request requested gw)) = get_prop request ''id''
   \<and> (\<forall>response. fst (routeAndExecuteRequest net request requested gw) = Gateway response
         \<longrightarrow> response_id response = get_prop request ''id'')"
  by (auto simp: routeAndExecuteRequest_def handleProtocolMethod_id error_response_id Let_def
      split: prod.splits option.splits sum.splits if_splits
      dest: handleProtocolMethod_id_pair)

section \<open>Fan-out of the list methods\<close>

lemma fetch_listings_eq:
  "fetch_listings key net entries allItems requested =
     (allItems @ concat (map (reported key) (answers net requested (mcp_urls entries))),
      requested @ mcp_urls entries)"
proof (induction entries arbitrary: allItems requested)
  case Nil
  then show ?case by (simp add: mcp_urls_def)
next
  case (Cons e entries)
  obtain sid conf where e: "e = (sid, conf)" by (cases e)
  show ?case
  proof (cases "listing_of key (net requested (config_url conf @ ''/mcp''))")
    case (Inl msg)
    then show ?thesis
      using Cons.IH [of allItems "requested @ [config_url conf @ ''/mcp'']"] e
      by (simp add: fetch_def reported_def mcp_urls_def)
  next
    case (Inr items)
    then show ?thesis
      using Cons.IH [of "allItems @ items" "requested @ [config_url conf @ ''/mcp'']"] e
      by (simp add: fetch_def reported_def mcp_urls_def)
  qed
qed

lemma protocol_list_methods:
  "isProtocolMethod (Some (JStr ''tools/list''))"
  "isProtocolMethod (Some (JStr ''resources/list''))"
  "isProtocolMethod (Some (JStr ''prompts/list''))"
  by (simp_all add: isProtocolMethod_def)

text \<open>
  Claim C5. \<open>tools/list\<close>, \<open>resources/list\<close> and \<open>prompts/list\<close> request
  \<open>url/mcp\<close> of every configured backend, in configuration order and whatever the
  server manager holds about its health, and return the concatenation of what each
  answer reports: the array under \<open>result.tools\<close> (or \<open>resources\<close>, \<open>prompts\<close>) of a
  2xx answer, and nothing for a call that throws or an answer that is not 2xx. The
  response is a result, never an error.
\<close>

theorem listing_fan_out:
  "getAvailableTools net gw requested =
     (concat (map (reported ''tools'') (answers net requested (mcp_urls (mcpServers (gw_config gw))))),
      requested @ mcp_urls (mcpServers (gw_config gw)))
   \<and> getAvailableResources net gw requested =
     (concat (map (reported ''resources'') (answers net requested (mcp_urls (mcpServers (gw_config gw))))),
      requested @ mcp_urls (mcpServers (gw_config gw)))
   \<and> getAvailablePrompts net gw requested =
     (concat (map (reported ''prompts'') (answers net requested (mcp_urls (mcpServers (gw_config gw))))),
      requested @ mcp_urls (mcpServers (gw_config gw)))
   \<and> getAvailableTools net (gw\<lparr>serverManager := sm\<rparr>) requested = getAvailableTools net gw requested
   \<and> getAvailableResources net (gw\<lparr>serverManager := sm\<rparr>) requested
       = getAvailableResources net gw requested
   \<and> getAvailablePrompts net (gw\<lparr>serverManager := sm\<rparr>) requested
       = getAvailablePrompts net gw requested
   \<and> reported key (FetchThrew msg) = []
   \<and> (\<not> response_ok status \<longrightarrow> reported key (FetchResponse status body) = [])
   \<and> (response_ok status \<and> get_prop_opt (get_prop res ''result'') key = Some (JArr items)
        \<longrightarrow> reported key (FetchResponse status (Inr res)) = items)
   \<and> (get_prop request ''method'' = Some (JStr ''tools/list'') \<longrightarrow>
        fst (routeAndExecuteRequest net request requested gw) =
          Gateway \<lparr>jsonrpc = ''2.0'', response_id = get_prop request ''id'',
            result = Some (JObj [(''tools'', JArr (fst (getAvailableTools net gw requested)))]),
            error = None\<rparr>)
   \<and> (get_prop request ''method'' = Some (JStr ''resources/list'') \<longrightarrow>
        fst (routeAndExecuteRequest net request requested gw) =
          Gateway \<lparr>jsonrpc = ''2.0'', response_id = get_prop request ''id'',
            result = Some (JObj [(''resources'', JArr (fst (getAvailableResources net gw requested)))]),
            error = None\<rparr>)
   \<and> (get_prop request ''method'' = Some (JStr ''prompts/list'') \<longrightarrow>
        fst (routeAndExecuteRequest net request requested gw) =
          Gateway \<lparr>jsonrpc = ''2.0'', response_id = get_prop request ''id'',
            result = Some (JObj [(''prompts'', JArr (fst (getAvailablePrompts net gw requested)))]),
            error = None\<rparr>)"
proof (intro conjI impI)
  show "getAvailableTools net gw requested =
     (concat (map (reported ''tools'') (answers net requested (mcp_urls (mcpServers (gw_config gw))))),
      requested @ mcp_urls (mcpServers (gw_config gw)))"
    by (simp add: getAvailableTools_def fetch_listings_eq)
  show "getAvailableResources net gw requested =
     (concat (map (reported ''resources'') (answers net requested (mcp_urls (mcpServers (gw_config gw))))),
      requested @ mcp_urls (mcpServers (gw_config gw)))"
    by (simp add: getAvailableResources_def fetch_listings_eq)
  show "getAvailablePrompts net gw requested =
     (concat (map (reported ''prompts'') (answers net requested (mcp_urls (mcpServers (gw_config gw))))),
      requested @ mcp_urls (mcpServers (gw_config gw)))"
    by (simp add: getAvailablePrompts_def fetch_listings_eq)
  show "getAvailableTools net (gw\<lparr>serverManager := sm\<rparr>) requested = getAvailableTools net gw requested"
    by (simp add: getAvailableTools_def)
  show "getAvailableResources net (gw\<lparr>serverManager := sm\<rparr>) requested
       = getAvailableResources net gw requested"
    by (simp add: getAvailableResources_def)
  show "getAvailablePrompts net (gw\<lparr>serverManager := sm\<rparr>) requested
       = getAvailablePrompts net gw requested"
    by (simp add: getAvailablePrompts_def)
  show "reported key (FetchThrew msg) = []"
    by (simp add: reported_def listing_of_def)
  show "reported key (FetchResponse status body) = []" if "\<not> response_ok status"
    using that by (simp add: reported_def listing_of_def)
  show "reported key (FetchResponse status (Inr res)) = items"
    if "response_ok status \<and> get_prop_opt (get_prop res ''result'') key = Some (JArr items)"
    using that by (cases res) (auto simp: reported_def listing_of_def)
  show "fst (routeAndExecuteRequest net request requested gw) =
          Gateway \<lparr>jsonrpc = ''2.0'', response_id = get_prop request ''id'',
            result = Some (JObj [(''tools'', JArr (fst (getAvailableTools net gw requested)))]),
            error = None\<rparr>"
    if "get_prop request ''method'' = Some (JStr ''tools/list'')"
    using that
    by (simp add: routeAndExecuteRequest_def protocol_list_methods handleProtocolMethod_def
        success_response_def split: prod.splits)
  show "fst (routeAndExecuteRequest net request requested gw) =
          Gateway \<lparr>jsonrpc = ''2.0'', response_id = get_prop request ''id'',
            result = Some (JObj [(''resources'', JArr (fst (getAvailableResources net gw requested)))]),
            error = None\<rparr>"
    if "get_prop request ''method'' = Some (JStr ''resources/list'')"
    using that
    by (simp add: routeAndExecuteRequest_def protocol_list_methods handleProtocolMethod_def
        success_response_def split: prod.splits)
  show "fst (routeAndExecuteRequest net request requested gw) =
          Gateway \<lparr>jsonrpc = ''2.0'', response_id = get_prop request ''id'',
            result = Some (JObj [(''prompts'', JArr (fst (getAvailablePrompts net gw requested)))]),
            error = None\<rparr>"
    if "get_prop request ''method'' = Some (JStr ''prompts/list'')"
    using that
    by (simp add: routeAndExecuteRequest_def protocol_list_methods handleProtocolMethod_def
        success_response_def split: prod.splits)
qed

lemma three_urls: "mcp_urls (mcpServers (gw_config three_gateway)) =
   [''http://localhost:3001/mcp'', ''http://localhost:3002/mcp'', ''http://localhost:3004/mcp'']"
  by (simp add: mcp_urls_def three_gateway_def new_MCPGateway_def three_config_def linear_config_def
    perplexity_config_def devtools_config_def)

theorem listing_fan_out_witness:
  "getAvailableTools one_down three_gateway [] =
     ([tool ''linear_get_teams'', tool ''chrome_start'', tool ''console_logs''],
      [''http://localhost:3001/mcp'', ''http://localhost:3002/mcp'', ''http://localhost:3004/mcp''])
   \<and> fst (routeAndExecuteRequest one_down list_tools [] three_gateway) =
       Gateway \<lparr>jsonrpc = ''2.0'', response_id = Some (JNum 1),
         result = Some (JObj [(''tools'',
           JArr [tool ''linear_get_teams'', tool ''chrome_start'', tool ''console_logs''])]),
         error = None\<rparr>"
proof -
  note T = listing_fan_out [of one_down three_gateway "[]" _ _ _ _ _ _ _ list_tools]
  have r1: "reported ''tools'' (one_down [] ''http://localhost:3001/mcp'') = [tool ''linear_get_teams'']"
    by (simp add: one_down_def reported_def listing_of_def response_ok_def)
  have r2: "reported ''tools'' (one_down [''http://localhost:3001/mcp''] ''http://localhost:3002/mcp'') = []"
    by (simp add: one_down_def reported_def listing_of_def response_ok_def)
  have r3: "reported ''tools'' (one_down [''http://localhost:3001/mcp'', ''http://localhost:3002/mcp'']
      ''http://localhost:3004/mcp'') = [tool ''chrome_start'', tool ''console_logs'']"
    by (simp add: one_down_def reported_def listing_of_def response_ok_def)
  have a: "getAvailableTools one_down three_gateway [] =
     ([tool ''linear_get_teams'', tool ''chrome_start'', tool ''console_logs''],
      [''http://localhost:3001/mcp'', ''http://localhost:3002/mcp'', ''http://localhost:3004/mcp''])"
    using T [THEN conjunct1] by (simp add: three_urls r1 r2 r3)
  have m: "get_prop list_tools ''method'' = Some (JStr ''tools/list'')"
    by (simp add: list_tools_def)
  have i: "get_prop list_tools ''id'' = Some (JNum 1)"
    by (simp add: list_tools_def)
  have b: "fst (routeAndExecuteRequest one_down list_tools [] three_gateway) =
       Gateway \<lparr>jsonrpc = ''2.0'', response_id = Some (JNum 1),
         result = Some (JObj [(''tools'',
           JArr [tool ''linear_get_teams'', tool ''chrome_start'', tool ''console_logs''])]),
         error = None\<rparr>"
    using T [THEN conjunct2, THEN conjunct2, THEN conjunct2, THEN conjunct2, THEN conjunct2,
      THEN conjunct2, THEN conjunct2, THEN conjunct2, THEN conjunct2, THEN conjunct1, rule_format, OF m]
    by (simp add: a i)
  from a b show ?thesis by simp
qed

section \<open>Shapes of failures\<close>

lemma route_error_shape:
  "fst (routeAndExecuteRequest net request requested gw) = Gateway response
   \<Longrightarrow> error response \<noteq> None
   \<Longrightarrow> jsonrpc_error_object response \<and> response_id response = get_prop request ''id''"
  by (auto simp: routeAndExecuteRequest_def handleProtocolMethod_def jsonrpc_error_object_def
      error_response_def success_response_def Let_def
      split: prod.splits option.splits sum.splits if_splits)

lemma http_capacity_failure:
  "getSessionFromHeaders verify headers now (sessionManager gw) = (None, ssm)
   \<Longrightarrow> \<not> canCreateNewSession ssm
   \<Longrightarrow> fst (handleHttpRequest verify net body headers uuid now requested gw) =
         GatewayHTTP \<lparr>success = False, http_error = Some ''Maximum concurrent sessions reached''\<rparr>"
  by (simp add: handleHttpRequest_def)

lemma http_after_session:
  "getSessionFromHeaders verify headers now (sessionManager gw) = (found, ssm)
   \<Longrightarrow> found \<noteq> None \<or> canCreateNewSession ssm
   \<Longrightarrow> fst (handleHttpRequest verify net body headers uuid now requested gw) =
         fst (convert_and_route net body requested
                (gw\<lparr>sessionManager :=
                     (if found = None then snd (createSession uuid ''anonymous'' Http now ssm)
                      else ssm)\<rparr>))"
  by (auto simp: handleHttpRequest_def split: prod.splits)

lemma route_ignores_sessions:
  "fst (routeAndExecuteRequest net request requested (gw\<lparr>sessionManager := ssm\<rparr>))
     = fst (routeAndExecuteRequest net request requested gw)"
  by (simp add: routeAndExecuteRequest_def handleProtocolMethod_def getAvailableTools_def
      getAvailableResources_def getAvailablePrompts_def Let_def
      split: prod.splits option.splits sum.splits)

lemma convert_and_route_fst:
  "handleHttpToMCP body = Inr request
   \<Longrightarrow> fst (convert_and_route net body requested gw)
         = MCP (fst (routeAndExecuteRequest net request requested gw))"
  by (cases "routeAndExecuteRequest net request requested gw") (simp add: convert_and_route_def)

lemma route_no_owner:
  assumes "\<not> isProtocolMethod (get_prop request ''method'')"
    and "resolveCapability request (capabilityMap gw) = None
         \<or> resolveCapability request (capabilityMap gw) = Some []"
  shows "fst (routeAndExecuteRequest net request requested gw) =
           Gateway \<lparr>jsonrpc = ''2.0'', response_id = get_prop request ''id'', result = None,
             error = Some \<lparr>code = - 32601, message = ''Method not found'',
               data = Some (JStr (''No server found for capability: ''
                                   @ template (capabilityToResolve request)))\<rparr>\<rparr>"
  using assms
  by (auto simp: routeAndExecuteRequest_def error_response_def getCapabilityToResolve_eq)

lemma route_unhealthy:
  assumes "\<not> isProtocolMethod (get_prop request ''method'')"
    and "resolveCapability request (capabilityMap gw) = Some sid" and "sid \<noteq> []"
    and "fst (getServerInstance sid (serverManager gw)) = None"
  shows "fst (routeAndExecuteRequest net request requested gw) =
           Gateway \<lparr>jsonrpc = ''2.0'', response_id = get_prop request ''id'', result = None,
             error = Some \<lparr>code = - 32603, message = ''Internal error'',
               data = Some (JStr (''No healthy server instances available for: '' @ sid))\<rparr>\<rparr>"
  using assms
  by (auto simp: routeAndExecuteRequest_def error_response_def split: prod.splits option.splits)

lemma route_after_fetch:
  assumes "\<not> isProtocolMethod (get_prop request ''method'')"
    and "resolveCapability request (capabilityMap gw) = Some sid" and "sid \<noteq> []"
    and "fst (getServerInstance sid (serverManager gw)) = Some inst"
  shows "fst (routeAndExecuteRequest net request requested gw) =
           (case relay_of (net requested (url inst @ ''/mcp'')) of
              Inl msg \<Rightarrow>
                Gateway \<lparr>jsonrpc = ''2.0'', response_id = get_prop request ''id'', result = None,
                  error = Some \<lparr>code = - 32603, message = ''Internal error'',
                    data = Some (JStr msg)\<rparr>\<rparr>
            | Inr body \<Rightarrow> Backend body)"
proof -
  obtain sm' where g: "getServerInstance sid (serverManager gw) = (Some inst, sm')"
    using assms(4) by (cases "getServerInstance sid (serverManager gw)") simp
  show ?thesis
    using assms(1-3)
    by (simp add: routeAndExecuteRequest_def g fetch_def error_response_def Let_def split: sum.splits)
qed

text \<open>
  Claim C7, as amended. An HTTP request that has a session (or gets one) and a valid
  envelope returns what \<open>routeAndExecuteRequest\<close> returns, and each failure inside
  routing is a well-formed JSON-RPC error object carrying the request's id: \<open>-32601\<close>
  when no backend owns the capability, \<open>-32603\<close> when the owner is unhealthy, and
  \<open>-32603\<close> when the call to the backend throws or its body cannot be read. Two
  kinds of answer are not JSON-RPC errors of the gateway. A failure before routing, at
  the session limit or for a malformed envelope, is returned as
  \<open>{success: false, error: message}\<close>. And the body a backend answers with, whatever
  the status, is returned as the backend sent it. On a WebSocket a frame with a
  malformed envelope gets the JSON-RPC error \<open>-32700\<close>, without id, pushed as a frame,
  and any other frame gets the response of routing.
\<close>

theorem failure_shapes:
  "(fst (getSessionFromHeaders verify headers now (sessionManager gw)) = None
      \<and> \<not> canCreateNewSession (snd (getSessionFromHeaders verify headers now (sessionManager gw)))
     \<longrightarrow> fst (handleHttpRequest verify net body headers uuid now requested gw) =
           GatewayHTTP \<lparr>success = False, http_error = Some ''Maximum concurrent sessions reached''\<rparr>)
   \<and> (\<forall>msg. (fst (getSessionFromHeaders verify headers now (sessionManager gw)) \<noteq> None
         \<or> canCreateNewSession (snd (getSessionFromHeaders verify headers now (sessionManager gw))))
        \<and> handleHttpToMCP body = Inl msg
     \<longrightarrow> fst (handleHttpRequest verify net body headers uuid now requested gw) =
           GatewayHTTP \<lparr>success = False, http_error = Some msg\<rparr>)
   \<and> (\<forall>request. (fst (getSessionFromHeaders verify headers now (sessionManager gw)) \<noteq> None
         \<or> canCreateNewSession (snd (getSessionFromHeaders verify headers now (sessionManager gw))))
        \<and> handleHttpToMCP body = Inr request
     \<longrightarrow> fst (handleHttpRequest verify net body headers uuid now requested gw) =
           MCP (fst (routeAndExecuteRequest net request requested gw)))
   \<and> (\<forall>request.
         \<not> isProtocolMethod (get_prop request ''method'')
         \<and> (resolveCapability request (capabilityMap gw) = None
            \<or> resolveCapability request (capabilityMap gw) = Some [])
     \<longrightarrow> (\<exists>response. fst (routeAndExecuteRequest net request requested gw) = Gateway response
           \<and> jsonrpc_error_object response
           \<and> response_id response = get_prop request ''id''
           \<and> error response = Some \<lparr>code = - 32601, message = ''Method not found'',
                data = Some (JStr (''No server found for capability: ''
                                    @ template (capabilityToResolve request)))\<rparr>))
   \<and> (\<forall>request sid.
         \<not> isProtocolMethod (get_prop request ''method'')
         \<and> resolveCapability request (capabilityMap gw) = Some sid \<and> sid \<noteq> []
         \<and> fst (getServerInstance sid (serverManager gw)) = None
     \<longrightarrow> (\<exists>response. fst (routeAndExecuteRequest net request requested gw) = Gateway response
           \<and> jsonrpc_error_object response
           \<and> response_id response = get_prop request ''id''
           \<and> error response = Some \<lparr>code = - 32603, message = ''Internal error'',
                data = Some (JStr (''No healthy server instances available for: '' @ sid))\<rparr>))
   \<and> (\<forall>request sid inst status msg.
         \<not> isProtocolMethod (get_prop request ''method'')
         \<and> resolveCapability request (capabilityMap gw) = Some sid \<and> sid \<noteq> []
         \<and> fst (getServerInstance sid (serverManager gw)) = Some inst
         \<and> (net requested (url inst @ ''/mcp'') = FetchThrew msg
            \<or> net requested (url inst @ ''/mcp'') = FetchResponse status (Inl msg))
     \<longrightarrow> (\<exists>response. fst (routeAndExecuteRequest net request requested gw) = Gateway response
           \<and> jsonrpc_error_object response
           \<and> response_id response = get_prop request ''id''
           \<and> error response = Some \<lparr>code = - 32603, message = ''Internal error'',
                data = Some (JStr msg)\<rparr>))
   \<and> (\<forall>request sid inst status.
         \<not> isProtocolMethod (get_prop request ''method'')
         \<and> resolveCapability request (capabilityMap gw) = Some sid \<and> sid \<noteq> []
         \<and> fst (getServerInstance sid (serverManager gw)) = Some inst
         \<and> net requested (url inst @ ''/mcp'') = FetchResponse status (Inr JNull)
         \<and> response_ok status
     \<longrightarrow> (\<exists>response. fst (routeAndExecuteRequest net request requested gw) = Gateway response
           \<and> jsonrpc_error_object response
           \<and> response_id response = get_prop request ''id''
           \<and> error response = Some \<lparr>code = - 32603, message = ''Internal error'',
                data = Some (JStr ''Cannot read properties of null (reading 'error')'')\<rparr>))
   \<and> (\<forall>request sid inst status answer.
         \<not> isProtocolMethod (get_prop request ''method'')
         \<and> resolveCapability request (capabilityMap gw) = Some sid \<and> sid \<noteq> []
         \<and> fst (getServerInstance sid (serverManager gw)) = Some inst
         \<and> net requested (url inst @ ''/mcp'') = FetchResponse status (Inr answer)
         \<and> \<not> (response_ok status \<and> answer = JNull)
     \<longrightarrow> fst (routeAndExecuteRequest net request requested gw) = Backend answer)
   \<and> (\<forall>request response.
         fst (routeAndExecuteRequest net request requested gw) = Gateway response
         \<and> error response \<noteq> None
     \<longrightarrow> jsonrpc_error_object response \<and> response_id response = get_prop request ''id'')
   \<and> (\<forall>msg. handleHttpToMCP parsed = Inl msg
     \<longrightarrow> fst (on_message net parsed requested gw) = [Gateway parse_error_frame]
         \<and> jsonrpc_error_object parse_error_frame)
   \<and> (\<forall>request. handleHttpToMCP parsed = Inr request
     \<longrightarrow> fst (on_message net parsed requested gw)
           = [fst (routeAndExecuteRequest net request requested gw)])"
proof (intro conjI allI impI)
  assume a: "fst (getSessionFromHeaders verify headers now (sessionManager gw)) = None
      \<and> \<not> canCreateNewSession (snd (getSessionFromHeaders verify headers now (sessionManager gw)))"
  obtain found ssm where g: "getSessionFromHeaders verify headers now (sessionManager gw) = (found, ssm)"
    by (cases "getSessionFromHeaders verify headers now (sessionManager gw)")
  with a have "getSessionFromHeaders verify headers now (sessionManager gw) = (None, ssm)"
    and "\<not> canCreateNewSession ssm" by simp_all
  then show "fst (handleHttpRequest verify net body headers uuid now requested gw) =
           GatewayHTTP \<lparr>success = False, http_error = Some ''Maximum concurrent sessions reached''\<rparr>"
    by (rule http_capacity_failure)
next
  fix msg
  assume a: "(fst (getSessionFromHeaders verify headers now (sessionManager gw)) \<noteq> None
         \<or> canCreateNewSession (snd (getSessionFromHeaders verify headers now (sessionManager gw))))
        \<and> handleHttpToMCP body = Inl msg"
  obtain found ssm where g: "getSessionFromHeaders verify headers now (sessionManager gw) = (found, ssm)"
    by (cases "getSessionFromHeaders verify headers now (sessionManager gw)")
  with a have "found \<noteq> None \<or> canCreateNewSession ssm" by simp
  from http_after_session [OF g this] a
  show "fst (handleHttpRequest verify net body headers uuid now requested gw) =
           GatewayHTTP \<lparr>success = False, http_error = Some msg\<rparr>"
    by (simp add: convert_and_route_def)
next
  fix request
  assume a: "(fst (getSessionFromHeaders verify headers now (sessionManager gw)) \<noteq> None
         \<or> canCreateNewSession (snd (getSessionFromHeaders verify headers now (sessionManager gw))))
        \<and> handleHttpToMCP body = Inr request"
  obtain found ssm where g: "getSessionFromHeaders verify headers now (sessionManager gw) = (found, ssm)"
    by (cases "getSessionFromHeaders verify headers now (sessionManager gw)")
  with a have "found \<noteq> None \<or> canCreateNewSession ssm" by simp
  from http_after_session [OF g this] a
  show "fst (handleHttpRequest verify net body headers uuid now requested gw) =
           MCP (fst (routeAndExecuteRequest net request requested gw))"
    by (simp add: convert_and_route_fst route_ignores_sessions)
next
  fix request
  assume a: "\<not> isProtocolMethod (get_prop request ''method'')
         \<and> (resolveCapability request (capabilityMap gw) = None
            \<or> resolveCapability request (capabilityMap gw) = Some [])"
  then have "fst (routeAndExecuteRequest net request requested gw) =
           Gateway \<lparr>jsonrpc = ''2.0'', response_id = get_prop request ''id'', result = None,
             error = Some \<lparr>code = - 32601, message = ''Method not found'',
               data = Some (JStr (''No server found for capability: ''
                                   @ template (capabilityToResolve request)))\<rparr>\<rparr>"
    using route_no_owner [of request gw net requested] by blast
  then show "\<exists>response. fst (routeAndExecuteRequest net request requested gw) = Gateway response
           \<and> jsonrpc_error_object response
           \<and> response_id response = get_prop request ''id''
           \<and> error response = Some \<lparr>code = - 32601, message = ''Method not found'',
                data = Some (JStr (''No server found for capability: ''
                                    @ template (capabilityToResolve request)))\<rparr>"
    by (simp add: jsonrpc_error_object_def)
next
  fix request sid
  assume a: "\<not> isProtocolMethod (get_prop request ''method'')
         \<and> resolveCapability request (capabilityMap gw) = Some sid \<and> sid \<noteq> []
         \<and> fst (getServerInstance sid (serverManager gw)) = None"
  then have "fst (routeAndExecuteRequest net request requested gw) =
           Gateway \<lparr>jsonrpc = ''2.0'', response_id = get_prop request ''id'', result = None,
             error = Some \<lparr>code = - 32603, message = ''Internal error'',
               data = Some (JStr (''No healthy server instances available for: '' @ sid))\<rparr>\<rparr>"
    using route_unhealthy [of request gw sid net requested] by blast
  then show "\<exists>response. fst (routeAndExecuteRequest net request requested gw) = Gateway response
           \<and> jsonrpc_error_object response
           \<and> response_id response = get_prop request ''id''
           \<and> error response = Some \<lparr>code = - 32603, message = ''Internal error'',
                data = Some (JStr (''No healthy server instances available for: '' @ sid))\<rparr>"
    by (simp add: jsonrpc_error_object_def)
next
  fix request sid inst status msg
  assume a: "\<not> isProtocolMethod (get_prop request ''method'')
         \<and> resolveCapability request (capabilityMap gw) = Some sid \<and> sid \<noteq> []
         \<and> fst (getServerInstance sid (serverManager gw)) = Some inst
         \<and> (net requested (url inst @ ''/mcp'') = FetchThrew msg
            \<or> net requested (url inst @ ''/mcp'') = FetchResponse status (Inl msg))"
  then have "relay_of (net requested (url inst @ ''/mcp'')) = Inl msg"
    by (auto simp: relay_of_def)
  with a have "fst (routeAndExecuteRequest net request requested gw) =
           Gateway \<lparr>jsonrpc = ''2.0'', response_id = get_prop request ''id'', result = None,
             error = Some \<lparr>code = - 32603, message = ''Internal error'',
               data = Some (JStr msg)\<rparr>\<rparr>"
    using route_after_fetch [of request gw sid inst net requested] by simp
  then show "\<exists>response. fst (routeAndExecuteRequest net request requested gw) = Gateway response
           \<and> jsonrpc_error_object response
           \<and> response_id response = get_prop request ''id''
           \<and> error response = Some \<lparr>code = - 32603, message = ''Internal error'',
                data = Some (JStr msg)\<rparr>"
    by (simp add: jsonrpc_error_object_def)
next
  fix request sid inst status
  assume a: "\<not> isProtocolMethod (get_prop request ''method'')
         \<and> resolveCapability request (capabilityMap gw) = Some sid \<and> sid \<noteq> []
         \<and> fst (getServerInstance sid (serverManager gw)) = Some inst
         \<and> net requested (url inst @ ''/mcp'') = FetchResponse status (Inr JNull)
         \<and> response_ok status"
  then have "relay_of (net requested (url inst @ ''/mcp''))
               = Inl ''Cannot read properties of null (reading 'error')''"
    by (simp add: relay_of_def)
  with a have "fst (routeAndExecuteRequest net request requested gw) =
           Gateway \<lparr>jsonrpc = ''2.0'', response_id = get_prop request ''id'', result = None,
             error = Some \<lparr>code = - 32603, message = ''Internal error'',
               data = Some (JStr ''Cannot read properties of null (reading 'error')'')\<rparr>\<rparr>"
    using route_after_fetch [of request gw sid inst net requested] by simp
  then show "\<exists>response. fst (routeAndExecuteRequest net request requested gw) = Gateway response
           \<and> jsonrpc_error_object response
           \<and> response_id response = get_prop request ''id''
           \<and> error response = Some \<lparr>code = - 32603, message = ''Internal error'',
                data = Some (JStr ''Cannot read properties of null (reading 'error')'')\<rparr>"
    by (simp add: jsonrpc_error_object_def)
next
  fix request sid inst status answer
  assume a: "\<not> isProtocolMethod (get_prop request ''method'')
         \<and> resolveCapability request (capabilityMap gw) = Some sid \<and> sid \<noteq> []
         \<and> fst (getServerInstance sid (serverManager gw)) = Some inst
         \<and> net requested (url inst @ ''/mcp'') = FetchResponse status (Inr answer)
         \<and> \<not> (response_ok status \<and> answer = JNull)"
  then have "relay_of (net requested (url inst @ ''/mcp'')) = Inr answer"
    by (auto simp: relay_of_def)
  with a show "fst (routeAndExecuteRequest net request requested gw) = Backend answer"
    using route_after_fetch [of request gw sid inst net requested] by simp
next
  fix request response
  assume "fst (routeAndExecuteRequest net request requested gw) = Gateway response
         \<and> error response \<noteq> None"
  then show "jsonrpc_error_object response" and "response_id response = get_prop request ''id''"
    using route_error_shape [of net request requested gw response] by simp_all
next
  fix msg assume "handleHttpToMCP parsed = Inl msg"
  then show "fst (on_message net parsed requested gw) = [Gateway parse_error_frame]"
    by (auto simp: on_message_def handleWebSocketMessage_def handleHttpToMCP_def parse_error_frame_def
        split: option.splits if_splits)
next
  fix msg
  show "jsonrpc_error_object parse_error_frame"
    by (simp add: jsonrpc_error_object_def parse_error_frame_def)
next
  fix request assume "handleHttpToMCP parsed = Inr request"
  then show "fst (on_message net parsed requested gw)
           = [fst (routeAndExecuteRequest net request requested gw)]"
    by (auto simp: on_message_def handleWebSocketMessage_def handleHttpToMCP_def
        split: option.splits if_splits prod.splits)
qed

lemma no_session: "getSessionFromHeaders no_tokens no_headers now ssm = (None, ssm)"
  by (simp add: getSessionFromHeaders_def no_headers_def)

lemma fresh_capabilityMap:
  "capabilityMap fresh_gateway = [(''linear'', [''linear_get_teams'', ''linear://teams''])]"
  by (simp add: fresh_gateway_def new_MCPGateway_def routing_config_def buildCapabilityMap_def
      linear_config_def)

lemma unknown_tool_reply:
  "fst (routeAndExecuteRequest no_network call_unknown [] fresh_gateway) =
     Gateway \<lparr>jsonrpc = ''2.0'', response_id = Some (JStr ''abc''), result = None,
       error = Some \<lparr>code = - 32601, message = ''Method not found'',
         data = Some (JStr ''No server found for capability: nonexistent_tool'')\<rparr>\<rparr>"
  by (simp add: routeAndExecuteRequest_def fresh_capabilityMap isProtocolMethod_def
      resolveCapability_def capabilityToResolve_def getCapabilityToResolve_def error_response_def
      call_unknown_def)

lemma unhealthy_call_reply:
  "fst (routeAndExecuteRequest no_network call_teams [] fresh_gateway) =
     Gateway \<lparr>jsonrpc = ''2.0'', response_id = Some (JNum 42), result = None,
       error = Some \<lparr>code = - 32603, message = ''Internal error'',
         data = Some (JStr ''No healthy server instances available for: linear'')\<rparr>\<rparr>"
proof -
  have s: "getServerInstance ''linear'' (serverManager fresh_gateway)
             = (None, serverManager fresh_gateway)"
    by (simp add: fresh_gateway_def new_MCPGateway_def routing_config_def new_MCPServerManager_def
        register_server_def linear_config_def getServerInstance_def Map_get_def)
  have r: "resolveCapability call_teams (capabilityMap fresh_gateway) = Some ''linear''"
    by (simp add: fresh_capabilityMap resolveCapability_def capabilityToResolve_def call_teams_def)
  have p: "\<not> isProtocolMethod (get_prop call_teams ''method'')"
    by (simp add: isProtocolMethod_def call_teams_def)
  have i: "get_prop call_teams ''id'' = Some (JNum 42)"
    by (simp add: call_teams_def)
  show ?thesis
    by (simp add: routeAndExecuteRequest_def p r i s error_response_def)
qed

lemma healthy_capabilityMap:
  "capabilityMap healthy_gateway = [(''linear'', [''linear_get_teams'', ''linear://teams''])]"
  by (simp add: healthy_gateway_def fresh_capabilityMap)

lemma healthy_servers:
  "serverManager healthy_gateway =
     \<lparr>servers = [(''linear'', \<lparr>instance_id = ''linear'', serverId = ''linear'',
        url = ''http://localhost:3001'', lastHealthCheck = 1, isHealthy = True,
        activeConnections = 0, capabilities = [''linear_get_teams'', ''linear://teams'']\<rparr>)]\<rparr>"
  by (simp add: healthy_gateway_def fresh_gateway_def new_MCPGateway_def routing_config_def
      new_MCPServerManager_def register_server_def linear_config_def performHealthCheck_def
      probe_up_def response_ok_def Map_get_def)

lemma healthy_instance:
  "fst (getServerInstance ''linear'' (serverManager healthy_gateway)) =
     Some \<lparr>instance_id = ''linear'', serverId = ''linear'',
        url = ''http://localhost:3001'', lastHealthCheck = 1, isHealthy = True,
        activeConnections = 1, capabilities = [''linear_get_teams'', ''linear://teams'']\<rparr>"
  by (simp add: healthy_servers getServerInstance_def Map_get_def Let_def)

lemma call_teams_facts:
  "\<not> isProtocolMethod (get_prop call_teams ''method'')"
  "get_prop call_teams ''id'' = Some (JNum 42)"
  "handleHttpToMCP (Some call_teams) = Inr call_teams"
  "resolveCapability call_teams (capabilityMap healthy_gateway) = Some ''linear''"
  "resolveCapability call_teams (capabilityMap fresh_gateway) = Some ''linear''"
  by (simp_all add: isProtocolMethod_def call_teams_def handleHttpToMCP_def healthy_capabilityMap
      fresh_capabilityMap resolveCapability_def capabilityToResolve_def)

lemma call_unknown_facts:
  "\<not> isProtocolMethod (get_prop call_unknown ''method'')"
  "get_prop call_unknown ''id'' = Some (JStr ''abc'')"
  "handleHttpToMCP (Some call_unknown) = Inr call_unknown"
  "resolveCapability call_unknown (capabilityMap fresh_gateway) = None"
  "template (capabilityToResolve call_unknown) = ''nonexistent_tool''"
  by (simp_all add: isProtocolMethod_def call_unknown_def handleHttpToMCP_def
      fresh_capabilityMap resolveCapability_def capabilityToResolve_def)

lemma relayed_500_reply:
  "fst (routeAndExecuteRequest backend_500 call_teams [] healthy_gateway)
     = Backend (JObj [(''message'', JStr ''boom'')])"
  by (simp add: routeAndExecuteRequest_def call_teams_facts healthy_servers getServerInstance_def
      Map_get_def fetch_def backend_500_def relay_of_def response_ok_def Let_def)

lemma open_gateways:
  "canCreateNewSession (sessionManager fresh_gateway)"
  "canCreateNewSession (sessionManager healthy_gateway)"
  by (simp_all add: healthy_gateway_def fresh_gateway_def new_MCPGateway_def routing_config_def
      new_MCPSessionManager_def canCreateNewSession_def Map_size_def)

text \<open>
  Claim C7 as stated fails: a body without \<open>jsonrpc\<close> and a request at the session
  limit are both answered with \<open>{success: false, error: message}\<close>, and the body of
  a backend that answers 500 with \<open>{message: boom}\<close> is returned as it is; none of
  the three is a JSON-RPC error object.
\<close>

theorem http_failure_counterexample:
  "fst (handleHttpRequest no_tokens no_network (Some bare_ping) no_headers ''uuid-9'' 30 [] fresh_gateway)
     = GatewayHTTP \<lparr>success = False, http_error = Some ''Invalid JSON-RPC request''\<rparr>
   \<and> \<not> http_jsonrpc_error
         (fst (handleHttpRequest no_tokens no_network (Some bare_ping) no_headers ''uuid-9'' 30 []
                 fresh_gateway))
   \<and> fst (handleHttpRequest no_tokens no_network (Some ping_42) no_headers ''uuid-9'' 30 [] one_socket)
     = GatewayHTTP \<lparr>success = False, http_error = Some ''Maximum concurrent sessions reached''\<rparr>
   \<and> \<not> http_jsonrpc_error
         (fst (handleHttpRequest no_tokens no_network (Some ping_42) no_headers ''uuid-9'' 30 []
                 one_socket))
   \<and> fst (handleHttpRequest no_tokens backend_500 (Some call_teams) no_headers ''uuid-9'' 30 []
            healthy_gateway)
     = MCP (Backend (JObj [(''message'', JStr ''boom'')]))
   \<and> \<not> http_jsonrpc_error
         (fst (handleHttpRequest no_tokens backend_500 (Some call_teams) no_headers ''uuid-9'' 30 []
                 healthy_gateway))"
proof -
  have a: "fst (handleHttpRequest no_tokens no_network (Some bare_ping) no_headers ''uuid-9'' 30 [] fresh_gateway)
     = GatewayHTTP \<lparr>success = False, http_error = Some ''Invalid JSON-RPC request''\<rparr>"
    using open_gateways(1) http_after_session [OF no_session, where gw = fresh_gateway and net = no_network
      and body = "Some bare_ping" and uuid = "''uuid-9''" and now = 30 and requested = "[]"]
    by (simp add: convert_and_route_def handleHttpToMCP_def bare_ping_def)
  have f: "\<not> canCreateNewSession (sessionManager one_socket)"
    by (simp add: gw_eval session_eval)
  have b: "fst (handleHttpRequest no_tokens no_network (Some ping_42) no_headers ''uuid-9'' 30 [] one_socket)
     = GatewayHTTP \<lparr>success = False, http_error = Some ''Maximum concurrent sessions reached''\<rparr>"
    using no_session f by (rule http_capacity_failure)
  have c: "fst (handleHttpRequest no_tokens backend_500 (Some call_teams) no_headers ''uuid-9'' 30 []
            healthy_gateway)
     = MCP (Backend (JObj [(''message'', JStr ''boom'')]))"
    using open_gateways(2) http_after_session [OF no_session, where gw = healthy_gateway
      and net = backend_500 and body = "Some call_teams" and uuid = "''uuid-9''" and now = 30
      and requested = "[]"]
    by (simp add: convert_and_route_fst [OF call_teams_facts(3)] route_ignores_sessions
        relayed_500_reply)
  show ?thesis by (simp add: a b c http_jsonrpc_error_def)
qed

theorem failure_shapes_witness:
  "fst (handleHttpRequest no_tokens no_network (Some ping_42) no_headers ''uuid-9'' 30 [] one_socket)
     = GatewayHTTP \<lparr>success = False, http_error = Some ''Maximum concurrent sessions reached''\<rparr>
   \<and> fst (handleHttpRequest no_tokens no_network (Some bare_ping) no_headers ''uuid-9'' 30 [] fresh_gateway)
     = GatewayHTTP \<lparr>success = False, http_error = Some ''Invalid JSON-RPC request''\<rparr>
   \<and> fst (handleHttpRequest no_tokens no_network (Some call_unknown) no_headers ''uuid-9'' 30 []
            fresh_gateway)
     = MCP (fst (routeAndExecuteRequest no_network call_unknown [] fresh_gateway))
   \<and> (\<exists>response. fst (routeAndExecuteRequest no_network call_unknown [] fresh_gateway) = Gateway response
        \<and> jsonrpc_error_object response
        \<and> response_id response = Some (JStr ''abc'')
        \<and> error response = Some \<lparr>code = - 32601, message = ''Method not found'',
             data = Some (JStr ''No server found for capability: nonexistent_tool'')\<rparr>)
   \<and> (\<exists>response. fst (routeAndExecuteRequest no_network call_teams [] fresh_gateway) = Gateway response
        \<and> jsonrpc_error_object response
        \<and> response_id response = Some (JNum 42)
        \<and> error response = Some \<lparr>code = - 32603, message = ''Internal error'',
             data = Some (JStr ''No healthy server instances available for: linear'')\<rparr>)
   \<and> (\<exists>response. fst (routeAndExecuteRequest no_network call_teams [] healthy_gateway) = Gateway response
        \<and> jsonrpc_error_object response
        \<and> response_id response = Some (JNum 42)
        \<and> error response = Some \<lparr>code = - 32603, message = ''Internal error'',
             data = Some (JStr ''connect ECONNREFUSED'')\<rparr>)
   \<and> fst (routeAndExecuteRequest backend_500 call_teams [] healthy_gateway)
       = Backend (JObj [(''message'', JStr ''boom'')])
   \<and> fst (on_message no_network (Some bare_ping) [] fresh_gateway) = [Gateway parse_error_frame]
   \<and> fst (on_message no_network (Some call_unknown) [] fresh_gateway)
       = [fst (routeAndExecuteRequest no_network call_unknown [] fresh_gateway)]"
proof -
  note T1 = failure_shapes [of no_tokens no_headers 30 one_socket no_network "Some ping_42" "''uuid-9''" "[]"
    "Some bare_ping"]
  note T2 = failure_shapes [of no_tokens no_headers 30 fresh_gateway no_network "Some bare_ping" "''uuid-9''" "[]"
    "Some call_unknown"]
  note T3 = failure_shapes [of no_tokens no_headers 30 fresh_gateway no_network "Some call_unknown" "''uuid-9''"
    "[]" "Some bare_ping"]
  note T4 = failure_shapes [of no_tokens no_headers 30 healthy_gateway no_network "Some call_teams" "''uuid-9''"
    "[]" "Some bare_ping"]
  note T5 = failure_shapes [of no_tokens no_headers 30 healthy_gateway backend_500 "Some call_teams" "''uuid-9''"
    "[]" "Some bare_ping"]
  have f: "fst (getSessionFromHeaders no_tokens no_headers 30 (sessionManager one_socket)) = None
      \<and> \<not> canCreateNewSession (snd (getSessionFromHeaders no_tokens no_headers 30 (sessionManager one_socket)))"
    by (simp add: no_session gw_eval session_eval)
  have c1: "fst (handleHttpRequest no_tokens no_network (Some ping_42) no_headers ''uuid-9'' 30 [] one_socket)
     = GatewayHTTP \<lparr>success = False, http_error = Some ''Maximum concurrent sessions reached''\<rparr>"
    by (rule T1 [THEN conjunct1, rule_format, OF f])
  have bad: "handleHttpToMCP (Some bare_ping) = Inl ''Invalid JSON-RPC request''"
    by (simp add: handleHttpToMCP_def bare_ping_def)
  have s2: "(fst (getSessionFromHeaders no_tokens no_headers 30 (sessionManager fresh_gateway)) \<noteq> None
         \<or> canCreateNewSession (snd (getSessionFromHeaders no_tokens no_headers 30 (sessionManager fresh_gateway))))
        \<and> handleHttpToMCP (Some bare_ping) = Inl ''Invalid JSON-RPC request''"
    by (simp add: bad no_session open_gateways)
  have c2: "fst (handleHttpRequest no_tokens no_network (Some bare_ping) no_headers ''uuid-9'' 30 [] fresh_gateway)
     = GatewayHTTP \<lparr>success = False, http_error = Some ''Invalid JSON-RPC request''\<rparr>"
    by (rule T2 [THEN conjunct2, THEN conjunct1, rule_format, OF s2])
  have s3: "(fst (getSessionFromHeaders no_tokens no_headers 30 (sessionManager fresh_gateway)) \<noteq> None
         \<or> canCreateNewSession (snd (getSessionFromHeaders no_tokens no_headers 30 (sessionManager fresh_gateway))))
        \<and> handleHttpToMCP (Some call_unknown) = Inr call_unknown"
    by (simp add: call_unknown_facts no_session open_gateways)
  have c3: "fst (handleHttpRequest no_tokens no_network (Some call_unknown) no_headers ''uuid-9'' 30 []
            fresh_gateway)
     = MCP (fst (routeAndExecuteRequest no_network call_unknown [] fresh_gateway))"
    by (rule T3 [THEN conjunct2, THEN conjunct2, THEN conjunct1, rule_format, OF s3])
  have h4: "\<not> isProtocolMethod (get_prop call_unknown ''method'')
         \<and> (resolveCapability call_unknown (capabilityMap fresh_gateway) = None
            \<or> resolveCapability call_unknown (capabilityMap fresh_gateway) = Some [])"
    by (simp add: call_unknown_facts)
  have c4: "\<exists>response. fst (routeAndExecuteRequest no_network call_unknown [] fresh_gateway) = Gateway response
        \<and> jsonrpc_error_object response
        \<and> response_id response = Some (JStr ''abc'')
        \<and> error response = Some \<lparr>code = - 32601, message = ''Method not found'',
             data = Some (JStr ''No server found for capability: nonexistent_tool'')\<rparr>"
    using T2 [THEN conjunct2, THEN conjunct2, THEN conjunct2, THEN conjunct1, rule_format, OF h4]
    by (simp add: call_unknown_facts)
  have u: "fst (getServerInstance ''linear'' (serverManager fresh_gateway)) = None"
    by (simp add: fresh_gateway_def new_MCPGateway_def routing_config_def new_MCPServerManager_def
        register_server_def linear_config_def getServerInstance_def Map_get_def)
  have h5: "\<not> isProtocolMethod (get_prop call_teams ''method'')
         \<and> resolveCapability call_teams (capabilityMap fresh_gateway) = Some ''linear'' \<and> ''linear'' \<noteq> []
         \<and> fst (getServerInstance ''linear'' (serverManager fresh_gateway)) = None"
    by (simp add: call_teams_facts u)
  have c5: "\<exists>response. fst (routeAndExecuteRequest no_network call_teams [] fresh_gateway) = Gateway response
        \<and> jsonrpc_error_object response
        \<and> response_id response = Some (JNum 42)
        \<and> error response = Some \<lparr>code = - 32603, message = ''Internal error'',
             data = Some (JStr ''No healthy server instances available for: linear'')\<rparr>"
    using T2 [THEN conjunct2, THEN conjunct2, THEN conjunct2, THEN conjunct2, THEN conjunct1,
      rule_format, OF h5]
    by (simp add: call_teams_facts)
  let ?inst = "\<lparr>instance_id = ''linear'', serverId = ''linear'',
        url = ''http://localhost:3001'', lastHealthCheck = 1, isHealthy = True,
        activeConnections = 1, capabilities = [''linear_get_teams'', ''linear://teams'']\<rparr>"
  have h6: "\<not> isProtocolMethod (get_prop call_teams ''method'')
         \<and> resolveCapability call_teams (capabilityMap healthy_gateway) = Some ''linear'' \<and> ''linear'' \<noteq> []
         \<and> fst (getServerInstance ''linear'' (serverManager healthy_gateway)) = Some ?inst
         \<and> (no_network [] (url ?inst @ ''/mcp'') = FetchThrew ''connect ECONNREFUSED''
            \<or> no_network [] (url ?inst @ ''/mcp'') = FetchResponse 0 (Inl ''connect ECONNREFUSED''))"
    by (simp add: call_teams_facts healthy_instance no_network_def)
  have c6: "\<exists>response. fst (routeAndExecuteRequest no_network call_teams [] healthy_gateway) = Gateway response
        \<and> jsonrpc_error_object response
        \<and> response_id response = Some (JNum 42)
        \<and> error response = Some \<lparr>code = - 32603, message = ''Internal error'',
             data = Some (JStr ''connect ECONNREFUSED'')\<rparr>"
    using T4 [THEN conjunct2, THEN conjunct2, THEN conjunct2, THEN conjunct2, THEN conjunct2,
      THEN conjunct1, rule_format, OF h6]
    by (simp add: call_teams_facts)
  have h8: "\<not> isProtocolMethod (get_prop call_teams ''method'')
         \<and> resolveCapability call_teams (capabilityMap healthy_gateway) = Some ''linear'' \<and> ''linear'' \<noteq> []
         \<and> fst (getServerInstance ''linear'' (serverManager healthy_gateway)) = Some ?inst
         \<and> backend_500 [] (url ?inst @ ''/mcp'') = FetchResponse 500 (Inr (JObj [(''message'', JStr ''boom'')]))
         \<and> \<not> (response_ok 500 \<and> JObj [(''message'', JStr ''boom'')] = JNull)"
    by (simp add: call_teams_facts healthy_instance backend_500_def)
  have c8: "fst (routeAndExecuteRequest backend_500 call_teams [] healthy_gateway)
       = Backend (JObj [(''message'', JStr ''boom'')])"
    by (rule T5 [THEN conjunct2, THEN conjunct2, THEN conjunct2, THEN conjunct2, THEN conjunct2,
      THEN conjunct2, THEN conjunct2, THEN conjunct1, rule_format, OF h8])
  have w1: "fst (on_message no_network (Some bare_ping) [] fresh_gateway) = [Gateway parse_error_frame]"
    using T3 [THEN conjunct2, THEN conjunct2, THEN conjunct2, THEN conjunct2, THEN conjunct2,
      THEN conjunct2, THEN conjunct2, THEN conjunct2, THEN conjunct2, THEN conjunct1,
      rule_format, OF bad] by simp
  have w2: "fst (on_message no_network (Some call_unknown) [] fresh_gateway)
       = [fst (routeAndExecuteRequest no_network call_unknown [] fresh_gateway)]"
    by (rule T2 [THEN conjunct2, THEN conjunct2, THEN conjunct2, THEN conjunct2, THEN conjunct2,
      THEN conjunct2, THEN conjunct2, THEN conjunct2, THEN conjunct2, THEN conjunct2,
      rule_format, OF call_unknown_facts(3)])
  from c1 c2 c3 c4 c5 c6 c8 w1 w2 show ?thesis by simp
qed

lemma refused_call_reply:
  "fst (routeAndExecuteRequest no_network call_teams [] healthy_gateway) =
     Gateway \<lparr>jsonrpc = ''2.0'', response_id = Some (JNum 42), result = None,
       error = Some \<lparr>code = - 32603, message = ''Internal error'',
         data = Some (JStr ''connect ECONNREFUSED'')\<rparr>\<rparr>"
proof -
  have s: "serverManager healthy_gateway =
     \<lparr>servers = [(''linear'', \<lparr>instance_id = ''linear'', serverId = ''linear'',
        url = ''http://localhost:3001'', lastHealthCheck = 1, isHealthy = True,
        activeConnections = 0, capabilities = [''linear_get_teams'', ''linear://teams'']\<rparr>)]\<rparr>"
    by (simp add: healthy_gateway_def fresh_gateway_def new_MCPGateway_def routing_config_def
        new_MCPServerManager_def register_server_def linear_config_def performHealthCheck_def
        probe_up_def response_ok_def Map_get_def)
  have r: "resolveCapability call_teams (capabilityMap healthy_gateway) = Some ''linear''"
    by (simp add: healthy_capabilityMap resolveCapability_def capabilityToResolve_def call_teams_def)
  have p: "\<not> isProtocolMethod (get_prop call_teams ''method'')"
    by (simp add: isProtocolMethod_def call_teams_def)
  have i: "get_prop call_teams ''id'' = Some (JNum 42)"
    by (simp add: call_teams_def)
  show ?thesis
    by (simp add: routeAndExecuteRequest_def p r s i getServerInstance_def Map_get_def fetch_def
        no_network_def relay_of_def error_response_def Let_def)
qed

lemma ping_reply:
  "fst (routeAndExecuteRequest no_network ping_42 [] fresh_gateway) =
     Gateway \<lparr>jsonrpc = ''2.0'', response_id = Some (JNum 42), result = Some (JObj []), error = None\<rparr>"
  by (simp add: routeAndExecuteRequest_def isProtocolMethod_def handleProtocolMethod_def
      success_response_def ping_42_def)

theorem id_round_trip_witness:
  "response_id \<lparr>jsonrpc = ''2.0'', response_id = Some (JNum 42), result = Some (JObj []), error = None\<rparr>
     = get_prop ping_42 ''id''
   \<and> get_prop ping_42 ''id'' = Some (JNum 42)
   \<and> get_prop ping_42 ''id'' \<noteq> Some (JStr ''42'')
   \<and> response_id (fst (handleProtocolMethod no_network ping_42 [] fresh_gateway)) = Some (JNum 42)
   \<and> (\<exists>response. fst (routeAndExecuteRequest no_network call_unknown [] fresh_gateway) = Gateway response
         \<and> code (the (error response)) = - 32601
         \<and> response_id response = Some (JStr ''abc''))
   \<and> (\<exists>response. fst (routeAndExecuteRequest no_network call_teams [] fresh_gateway) = Gateway response
         \<and> code (the (error response)) = - 32603
         \<and> response_id response = Some (JNum 42))
   \<and> (\<exists>response. fst (routeAndExecuteRequest no_network call_teams [] healthy_gateway) = Gateway response
         \<and> code (the (error response)) = - 32603
         \<and> response_id response = Some (JNum 42))"
proof -
  have i: "get_prop ping_42 ''id'' = Some (JNum 42)"
    by (simp add: ping_42_def)
  have j: "get_prop call_unknown ''id'' = Some (JStr ''abc'')"
    by (simp add: call_unknown_def)
  have k: "get_prop call_teams ''id'' = Some (JNum 42)"
    by (simp add: call_teams_def)
  have a: "response_id \<lparr>jsonrpc = ''2.0'', response_id = Some (JNum 42), result = Some (JObj []), error = None\<rparr>
     = get_prop ping_42 ''id''"
    by (rule id_round_trip [of no_network ping_42 "[]" fresh_gateway, THEN conjunct2, rule_format,
          OF ping_reply])
  have b: "response_id (fst (handleProtocolMethod no_network ping_42 [] fresh_gateway)) = Some (JNum 42)"
    using id_round_trip [of no_network ping_42 "[]" fresh_gateway, THEN conjunct1] i by simp
  have c: "response_id \<lparr>jsonrpc = ''2.0'', response_id = Some (JStr ''abc''), result = None,
       error = Some \<lparr>code = - 32601, message = ''Method not found'',
         data = Some (JStr ''No server found for capability: nonexistent_tool'')\<rparr>\<rparr>
       = get_prop call_unknown ''id''"
    by (rule id_round_trip [of no_network call_unknown "[]" fresh_gateway, THEN conjunct2, rule_format,
          OF unknown_tool_reply])
  have d: "response_id \<lparr>jsonrpc = ''2.0'', response_id = Some (JNum 42), result = None,
       error = Some \<lparr>code = - 32603, message = ''Internal error'',
         data = Some (JStr ''No healthy server instances available for: linear'')\<rparr>\<rparr>
       = get_prop call_teams ''id''"
    by (rule id_round_trip [of no_network call_teams "[]" fresh_gateway, THEN conjunct2, rule_format,
          OF unhealthy_call_reply])
  have e: "response_id \<lparr>jsonrpc = ''2.0'', response_id = Some (JNum 42), result = None,
       error = Some \<lparr>code = - 32603, message = ''Internal error'',
         data = Some (JStr ''connect ECONNREFUSED'')\<rparr>\<rparr>
       = get_prop call_teams ''id''"
    by (rule id_round_trip [of no_network call_teams "[]" healthy_gateway, THEN conjunct2, rule_format,
          OF refused_call_reply])
  show ?thesis
    using a b c d e
    by (simp add: i j k unknown_tool_reply unhealthy_call_reply refused_call_reply)
qed

section \<open>Requests reach healthy backends only\<close>

lemma route_request_target:
  assumes "\<not> isProtocolMethod (get_prop request ''method'')"
    and "fst (snd (routeAndExecuteRequest net request requested gw)) \<noteq> requested"
  shows "\<exists>sid s. resolveCapability request (capabilityMap gw) = Some sid
           \<and> Map_get (servers (serverManager gw)) sid = Some s \<and> isHealthy s
           \<and> fst (getServerInstance sid (serverManager gw)) \<noteq> None
           \<and> fst (snd (routeAndExecuteRequest net request requested gw))
               = requested @ [url s @ ''/mcp'']"
proof -
  from assms obtain sid where r: "resolveCapability request (capabilityMap gw) = Some sid"
    and n: "sid \<noteq> []"
    by (auto simp: routeAndExecuteRequest_def split: option.splits if_splits)
  show ?thesis
  proof (cases "Map_get (servers (serverManager gw)) sid")
    case None
    with assms r n show ?thesis
      by (simp add: routeAndExecuteRequest_def getServerInstance_def)
  next
    case (Some s)
    show ?thesis
    proof (cases "isHealthy s")
      case False
      with assms r n Some show ?thesis
        by (simp add: routeAndExecuteRequest_def getServerInstance_def)
    next
      case True
      have g: "getServerInstance sid (serverManager gw) =
          (Some (s\<lparr>activeConnections := activeConnections s + 1\<rparr>),
           (serverManager gw)\<lparr>servers := Map_set sid (s\<lparr>activeConnections := activeConnections s + 1\<rparr>)
              (servers (serverManager gw))\<rparr>)"
        using Some True by (simp add: getServerInstance_def Let_def)
      have "fst (snd (routeAndExecuteRequest net request requested gw)) = requested @ [url s @ ''/mcp'']"
        using assms(1) r n
        by (simp add: routeAndExecuteRequest_def g fetch_def Let_def split: sum.splits)
      with r Some True g show ?thesis by simp
    qed
  qed
qed

text \<open>
  Claim C1. For every configured backend \<open>B\<close> and every history of completed probes,
  checkouts and releases since construction, \<open>getServerInstance B\<close> returns an
  instance exactly when \<open>B\<close> is registered and the most recent completed probe of \<open>B\<close>
  observed a 2xx response; a backend whose last probe got another status or threw
  (network error, timeout), or which was never probed, gets \<open>null\<close>. And when
  \<open>routeAndExecuteRequest\<close> sends a request that is not a protocol method, it sends
  exactly one, to the URL of the backend that owns the capability, and that backend is
  marked healthy: its most recent completed probe observed a 2xx response.
\<close>

theorem health_gating:
  "((fst (getServerInstance B (sm_run evs (new_MCPServerManager cfg t0))) \<noteq> None)
    = (Map_get (servers (new_MCPServerManager cfg t0)) B \<noteq> None
       \<and> (\<exists>r. last_probe B evs = Some r \<and> probe_2xx r)))
   \<and> (serverManager gw = sm_run evs (new_MCPServerManager cfg t0)
       \<and> \<not> isProtocolMethod (get_prop request ''method'')
       \<and> fst (snd (routeAndExecuteRequest net request requested gw)) \<noteq> requested
      \<longrightarrow> (\<exists>sid s r. resolveCapability request (capabilityMap gw) = Some sid
             \<and> Map_get (servers (serverManager gw)) sid = Some s \<and> isHealthy s
             \<and> last_probe sid evs = Some r \<and> probe_2xx r
             \<and> fst (snd (routeAndExecuteRequest net request requested gw))
                 = requested @ [url s @ ''/mcp'']))"
proof (intro conjI impI)
  show "(fst (getServerInstance B (sm_run evs (new_MCPServerManager cfg t0))) \<noteq> None)
    = (Map_get (servers (new_MCPServerManager cfg t0)) B \<noteq> None
       \<and> (\<exists>r. last_probe B evs = Some r \<and> probe_2xx r))"
    by (rule last_probe_gates)
next
  assume a: "serverManager gw = sm_run evs (new_MCPServerManager cfg t0)
       \<and> \<not> isProtocolMethod (get_prop request ''method'')
       \<and> fst (snd (routeAndExecuteRequest net request requested gw)) \<noteq> requested"
  then obtain sid s where r: "resolveCapability request (capabilityMap gw) = Some sid"
    and s: "Map_get (servers (serverManager gw)) sid = Some s" and h: "isHealthy s"
    and i: "fst (getServerInstance sid (serverManager gw)) \<noteq> None"
    and u: "fst (snd (routeAndExecuteRequest net request requested gw)) = requested @ [url s @ ''/mcp'']"
    using route_request_target [of request net requested gw] by blast
  from i a have "fst (getServerInstance sid (sm_run evs (new_MCPServerManager cfg t0))) \<noteq> None"
    by simp
  then have "\<exists>r. last_probe sid evs = Some r \<and> probe_2xx r"
    using last_probe_gates [of sid evs cfg t0] by simp
  with r s h u show "\<exists>sid s r. resolveCapability request (capabilityMap gw) = Some sid
             \<and> Map_get (servers (serverManager gw)) sid = Some s \<and> isHealthy s
             \<and> last_probe sid evs = Some r \<and> probe_2xx r
             \<and> fst (snd (routeAndExecuteRequest net request requested gw))
                 = requested @ [url s @ ''/mcp'']"
    by blast
qed

lemma mixed_servers:
  "serverManager mixed_gateway =
     \<lparr>servers =
        [(''perplexity'', \<lparr>instance_id = ''perplexity'', serverId = ''perplexity'',
            url = ''http://localhost:3002'', lastHealthCheck = 1, isHealthy = False,
            activeConnections = 0, capabilities = [''perplexity_search'']\<rparr>),
         (''linear'', \<lparr>instance_id = ''linear'', serverId = ''linear'',
            url = ''http://localhost:3001'', lastHealthCheck = 2, isHealthy = True,
            activeConnections = 0, capabilities = [''linear_get_teams'', ''linear://teams'']\<rparr>)]\<rparr>"
  by (simp add: mixed_gateway_def mixed_config_def mixed_probes_def probe_down_def probe_up_def
      perplexity_config_def linear_config_def new_MCPServerManager_def register_server_def
      sm_run_def performHealthCheck_def response_ok_def Map_get_def)

lemma mixed_capabilityMap:
  "capabilityMap mixed_gateway =
     [(''perplexity'', [''perplexity_search'']), (''linear'', [''linear_get_teams'', ''linear://teams''])]"
  by (simp add: mixed_gateway_def new_MCPGateway_def mixed_config_def buildCapabilityMap_def
      perplexity_config_def linear_config_def)

lemma mixed_call_teams_requests:
  "fst (snd (routeAndExecuteRequest no_network call_teams [] mixed_gateway))
     = [''http://localhost:3001/mcp'']"
proof -
  have r: "resolveCapability call_teams (capabilityMap mixed_gateway) = Some ''linear''"
    by (simp add: mixed_capabilityMap resolveCapability_def capabilityToResolve_def call_teams_def)
  have p: "\<not> isProtocolMethod (get_prop call_teams ''method'')"
    by (simp add: isProtocolMethod_def call_teams_def)
  show ?thesis
    by (simp add: routeAndExecuteRequest_def p r mixed_servers getServerInstance_def Map_get_def
        fetch_def no_network_def relay_of_def error_response_def Let_def)
qed

lemma mixed_call_search_requests:
  "fst (snd (routeAndExecuteRequest no_network call_search [] mixed_gateway)) = []"
proof -
  have r: "resolveCapability call_search (capabilityMap mixed_gateway) = Some ''perplexity''"
    by (simp add: mixed_capabilityMap resolveCapability_def capabilityToResolve_def call_search_def)
  have p: "\<not> isProtocolMethod (get_prop call_search ''method'')"
    by (simp add: isProtocolMethod_def call_search_def)
  show ?thesis
    by (simp add: routeAndExecuteRequest_def p r mixed_servers getServerInstance_def Map_get_def
        error_response_def Let_def)
qed

theorem health_gating_witness:
  "fst (snd (routeAndExecuteRequest no_network call_teams [] mixed_gateway))
     = [''http://localhost:3001/mcp'']
   \<and> (\<exists>sid s r. resolveCapability call_teams (capabilityMap mixed_gateway) = Some sid
        \<and> Map_get (servers (serverManager mixed_gateway)) sid = Some s \<and> isHealthy s
        \<and> last_probe sid mixed_probes = Some r \<and> probe_2xx r
        \<and> fst (snd (routeAndExecuteRequest no_network call_teams [] mixed_gateway))
            = [] @ [url s @ ''/mcp''])
   \<and> fst (snd (routeAndExecuteRequest no_network call_search [] mixed_gateway)) = []
   \<and> fst (getServerInstance ''perplexity'' (serverManager mixed_gateway)) = None
   \<and> fst (getServerInstance ''linear'' (serverManager mixed_gateway)) \<noteq> None
   \<and> fst (getServerInstance ''linear'' linear_manager) = None"
proof -
  have p: "\<not> isProtocolMethod (get_prop call_teams ''method'')"
    by (simp add: isProtocolMethod_def call_teams_def)
  have m: "serverManager mixed_gateway
             = sm_run mixed_probes (new_MCPServerManager (mcpServers mixed_config) 0)"
    by (simp add: mixed_gateway_def)
  have h: "serverManager mixed_gateway
             = sm_run mixed_probes (new_MCPServerManager (mcpServers mixed_config) 0)
       \<and> \<not> isProtocolMethod (get_prop call_teams ''method'')
       \<and> fst (snd (routeAndExecuteRequest no_network call_teams [] mixed_gateway)) \<noteq> []"
    by (simp add: m p mixed_call_teams_requests)
  have a: "\<exists>sid s r. resolveCapability call_teams (capabilityMap mixed_gateway) = Some sid
        \<and> Map_get (servers (serverManager mixed_gateway)) sid = Some s \<and> isHealthy s
        \<and> last_probe sid mixed_probes = Some r \<and> probe_2xx r
        \<and> fst (snd (routeAndExecuteRequest no_network call_teams [] mixed_gateway))
            = [] @ [url s @ ''/mcp'']"
    by (rule health_gating [THEN conjunct2, rule_format, OF h])
  have reg: "Map_get (servers (new_MCPServerManager (mcpServers mixed_config) 0)) ''perplexity'' \<noteq> None
     \<and> Map_get (servers (new_MCPServerManager (mcpServers mixed_config) 0)) ''linear'' \<noteq> None"
    by (simp add: mixed_config_def perplexity_config_def linear_config_def new_MCPServerManager_def
        register_server_def Map_get_def)
  have lp: "last_probe ''perplexity'' mixed_probes = Some probe_down \<and> \<not> probe_2xx probe_down"
    by (simp add: mixed_probes_def probe_2xx_def probe_down_def response_ok_def)
  have ll: "last_probe ''linear'' mixed_probes = Some probe_up \<and> probe_2xx probe_up"
    by (simp add: mixed_probes_def probe_2xx_def probe_up_def response_ok_def)
  have b: "fst (getServerInstance ''perplexity'' (serverManager mixed_gateway)) = None"
    using health_gating [of "''perplexity''" mixed_probes "mcpServers mixed_config" 0, THEN conjunct1]
      lp by (simp add: m)
  have c: "fst (getServerInstance ''linear'' (serverManager mixed_gateway)) \<noteq> None"
    using health_gating [of "''linear''" mixed_probes "mcpServers mixed_config" 0, THEN conjunct1]
      ll reg by (simp add: m)
  have d: "fst (getServerInstance ''linear'' linear_manager) = None"
    using health_gating [of "''linear''" "[]" "[(''linear'', linear_config)]" 0, THEN conjunct1]
    by (simp add: linear_manager_def sm_run_def)
  from mixed_call_teams_requests a mixed_call_search_requests b c d show ?thesis by simp
qed

end
